theory Spec2Isabelle
  imports Complex_Main "HOL-Library.Sublist"
begin

section \<open>Shared JavaScript helpers\<close>

text \<open>
  \<^verbatim>\<open>Math.round(x)\<close> rounds to the nearest integer, ties towards plus infinity.
  The numbers rounded in this development are small exact quotients, so they are
  modelled as rationals.
\<close>

definition js_round :: "rat \<Rightarrow> int" where
  "js_round x = \<lfloor>x + 1 / 2\<rfloor>"

text \<open>\<^verbatim>\<open>xs.slice(-n)\<close>: the last \<open>n\<close> elements, or all of them when there are fewer.\<close>

definition slice_last :: "nat \<Rightarrow> 'a list \<Rightarrow> 'a list" where
  "slice_last n xs = drop (length xs - n) xs"

text \<open>\<^verbatim>\<open>xs.filter(Boolean).length\<close> on a list of booleans.\<close>

definition count_true :: "bool list \<Rightarrow> nat" where
  "count_true bs = length (filter (\<lambda>b. b) bs)"

section \<open>dns-monitor.js: DNSMonitor\<close>

subsection \<open>Health-check results and calculateOverallHealth\<close>

text \<open>
  The \<^verbatim>\<open>results\<close> object of \<^verbatim>\<open>performHealthCheck\<close>, with the fields of its four
  parts that \<^verbatim>\<open>calculateOverallHealth\<close> and \<^verbatim>\<open>identifyIssues\<close> read
  (\<^verbatim>\<open>results.dns.success\<close> is \<open>dns_success\<close>, and so on).
\<close>

record health_results =
  dns_success :: bool
  http_success :: bool
  http_statusCode :: "nat option"
  ssl_success :: bool
  ssl_daysUntilExpiry :: "int option"
  propagation_success :: bool
  propagation_percentage :: rat

datatype severity = Critical | Warning

datatype issue_type = Dns_resolution | Http_access | Ssl_certificate | Dns_propagation

type_synonym issue = "issue_type \<times> severity"

definition identifyIssues :: "health_results \<Rightarrow> issue list" where
  "identifyIssues r =
     (if \<not> dns_success r then [(Dns_resolution, Critical)] else []) @
     (if \<not> http_success r then [(Http_access, Critical)] else []) @
     (case ssl_daysUntilExpiry r of
        None \<Rightarrow> []
      | Some d \<Rightarrow>
          if \<not> ssl_success r \<and> d < 30
          then [(Ssl_certificate, if d < 7 then Critical else Warning)] else []) @
     (if propagation_percentage r < 50 then [(Dns_propagation, Warning)] else [])"

record overall_health =
  healthy :: bool
  score :: nat
  maxScore :: nat
  percentage :: int
  issues :: "issue list"

definition scores :: "health_results \<Rightarrow> nat list" where
  "scores r =
     [if dns_success r then 1 else 0,
      if http_success r then 1 else 0,
      if ssl_success r then 1 else 0,
      if propagation_success r then 1 else 0]"

definition calculateOverallHealth :: "health_results \<Rightarrow> overall_health" where
  "calculateOverallHealth r =
     (let totalScore = foldl (+) 0 (scores r);
          maxScore = length (scores r)
      in \<lparr> healthy = (rat_of_nat totalScore \<ge> rat_of_nat maxScore * (3 / 4)),
           score = totalScore,
           maxScore = maxScore,
           percentage = js_round (rat_of_nat totalScore / rat_of_nat maxScore * 100),
           issues = identifyIssues r \<rparr>)"

subsection \<open>The bounded history of checks\<close>

text \<open>
  \<^verbatim>\<open>keepRecentChecks\<close> on the list \<^verbatim>\<open>this.checks\<close>, and the two statements of
  \<^verbatim>\<open>performHealthCheck\<close> that store a result: push, then prune.
\<close>

definition keepRecentChecks :: "'a list \<Rightarrow> 'a list" where
  "keepRecentChecks checks = (if length checks > 100 then slice_last 100 checks else checks)"

definition storeResults :: "'a list \<Rightarrow> 'a \<Rightarrow> 'a list" where
  "storeResults checks results = keepRecentChecks (checks @ [results])"

section \<open>dns-management-system.js: DNSMonitoring\<close>

text \<open>\<^verbatim>\<open>logCheck\<close>: the new entry is pushed, then the list is cut to its last 100.\<close>

definition logCheck :: "'a list \<Rightarrow> 'a \<Rightarrow> 'a list" where
  "logCheck checks check =
     (let checks' = checks @ [check]
      in if length checks' > 100 then slice_last 100 checks' else checks')"

section \<open>dns-verifier.js: DNSVerifier\<close>

subsection \<open>Probes and their results\<close>

text \<open>
  What an awaited call gives back: a value, or a thrown error with its message. Every
  network call of the verifier sits in a \<^verbatim>\<open>try\<close> block whose \<^verbatim>\<open>catch\<close> stores the
  message in the result.
\<close>

datatype 'a awaited = Fulfilled 'a | Rejected string

text \<open>
  The TLS probe of \<^verbatim>\<open>checkSSLCertificate\<close>: a peer certificate with its
  \<^verbatim>\<open>expiryDate > now\<close> flag, a response without certificate, an error event or the
  timeout event.
\<close>

datatype ssl_probe = Certificate bool | NoCertificate | SslError string | SslTimeout

text \<open>
  The network as one \<^verbatim>\<open>performComprehensiveCheck\<close> sees it: the local resolver's CNAME
  answer, the answer of the resolver at each server address, the parsed
  \<^verbatim>\<open>result\<close> values of each online checker (by name), the HTTP status and the TLS
  probe. \<^verbatim>\<open>benchmarkPerformance\<close> catches its own errors and its result is read by none
  of the functions below, so it is left out.
\<close>

record probes =
  resolveLocal :: "string list awaited"
  resolveVia :: "string \<Rightarrow> string list awaited"
  fetchOnline :: "string \<Rightarrow> string list awaited"
  httpGet :: "nat awaited"
  tlsProbe :: ssl_probe

definition dnsServers :: "(string \<times> string) list" where
  "dnsServers =
     [(''Google Primary'', ''8.8.8.8''),
      (''Google Secondary'', ''8.8.4.4''),
      (''Cloudflare Primary'', ''1.1.1.1''),
      (''Cloudflare Secondary'', ''1.0.0.1''),
      (''OpenDNS Primary'', ''208.67.222.222''),
      (''OpenDNS Secondary'', ''208.67.220.220''),
      (''Quad9'', ''9.9.9.9''),
      (''Comodo'', ''8.26.56.26'')]"

definition onlineCheckers :: "string list" where
  "onlineCheckers = [''whatsmydns.net'', ''Google DNS'']"

record dns_result =
  dns_ok :: bool
  dns_addresses :: "string list option"
  dns_error :: "string option"

text \<open>
  The body shared by \<^verbatim>\<open>checkLocalDNS\<close> and the loop of \<^verbatim>\<open>checkDNSServers\<close>:
  \<^verbatim>\<open>result.success = addresses && addresses.includes(target)\<close>, or the error message.
\<close>

definition dnsResult :: "string \<Rightarrow> string list awaited \<Rightarrow> dns_result" where
  "dnsResult target a =
     (case a of
        Fulfilled addresses \<Rightarrow>
          \<lparr> dns_ok = (target \<in> set addresses), dns_addresses = Some addresses,
            dns_error = None \<rparr>
      | Rejected msg \<Rightarrow>
          \<lparr> dns_ok = False, dns_addresses = None, dns_error = Some msg \<rparr>)"

definition checkLocalDNS :: "string \<Rightarrow> probes \<Rightarrow> dns_result" where
  "checkLocalDNS target p = dnsResult target (resolveLocal p)"

record 'a tally =
  checks :: "'a list"
  successCount :: nat
  totalCount :: nat

definition checkDNSServers :: "string \<Rightarrow> probes \<Rightarrow> dns_result tally" where
  "checkDNSServers target p =
     (let results = map (\<lambda>(name, address). dnsResult target (resolveVia p address)) dnsServers
      in \<lparr> checks = results,
           successCount = length (filter dns_ok results),
           totalCount = length results \<rparr>)"

record online_result =
  online_ok :: bool
  online_locations :: "(string \<times> bool) list"
  online_error :: "string option"

text \<open>
  One round of the loop of \<^verbatim>\<open>checkOnlineServices\<close>. Both parsers set a location's
  \<^verbatim>\<open>success\<close> to \<^verbatim>\<open>result === target\<close>; the service succeeds when some location does.
\<close>

definition onlineResult :: "string \<Rightarrow> string list awaited \<Rightarrow> online_result" where
  "onlineResult target a =
     (case a of
        Fulfilled answers \<Rightarrow>
          (let locations = map (\<lambda>r. (r, r = target)) answers
           in \<lparr> online_ok = list_ex snd locations, online_locations = locations,
                online_error = None \<rparr>)
      | Rejected msg \<Rightarrow>
          \<lparr> online_ok = False, online_locations = [], online_error = Some msg \<rparr>)"

definition checkOnlineServices :: "string \<Rightarrow> probes \<Rightarrow> online_result tally" where
  "checkOnlineServices target p =
     (let results = map (\<lambda>name. onlineResult target (fetchOnline p name)) onlineCheckers
      in \<lparr> checks = results,
           successCount = length (filter online_ok results),
           totalCount = length results \<rparr>)"

record http_result =
  http_ok :: bool
  http_status :: "nat option"
  http_error :: "string option"

definition checkHTTPAccess :: "probes \<Rightarrow> http_result" where
  "checkHTTPAccess p =
     (case httpGet p of
        Fulfilled status \<Rightarrow>
          \<lparr> http_ok = (status \<ge> 200 \<and> status < 400), http_status = Some status,
            http_error = None \<rparr>
      | Rejected msg \<Rightarrow>
          \<lparr> http_ok = False, http_status = None, http_error = Some msg \<rparr>)"

record ssl_result =
  ssl_ok :: bool
  ssl_error :: "string option"

definition checkSSLCertificate :: "probes \<Rightarrow> ssl_result" where
  "checkSSLCertificate p =
     (case tlsProbe p of
        Certificate notExpired \<Rightarrow> \<lparr> ssl_ok = notExpired, ssl_error = None \<rparr>
      | NoCertificate \<Rightarrow> \<lparr> ssl_ok = False, ssl_error = None \<rparr>
      | SslError msg \<Rightarrow> \<lparr> ssl_ok = False, ssl_error = Some msg \<rparr>
      | SslTimeout \<Rightarrow> \<lparr> ssl_ok = False, ssl_error = Some ''SSL check timeout'' \<rparr>)"

subsection \<open>calculateOverallSuccess and performComprehensiveCheck\<close>

record overall_success =
  success :: bool
  successScore :: nat
  totalChecks :: nat
  successPercentage :: int
  details :: "bool list"

record check_parts =
  local :: dns_result
  servers :: "dns_result tally"
  online :: "online_result tally"
  http :: http_result
  ssl :: ssl_result

record check = check_parts +
  overall :: overall_success

text \<open>
  \<^verbatim>\<open>(successCount / totalCount) >= 0.5\<close> on JavaScript numbers: \<open>0 / 0\<close> is NaN, which
  compares false, and \<open>n / 0\<close> for positive \<open>n\<close> is Infinity. The counts are list
  lengths, far below the range where a rounded quotient could reach 0.5 from below, so
  the quotient is taken in the rationals.
\<close>

definition ratioAtLeastHalf :: "nat \<Rightarrow> nat \<Rightarrow> bool" where
  "ratioAtLeastHalf s t =
     (if t = 0 then s \<noteq> 0 else rat_of_nat s / rat_of_nat t \<ge> 1 / 2)"

definition calculateOverallSuccess :: "'a check_parts_scheme \<Rightarrow> overall_success" where
  "calculateOverallSuccess c =
     (let checks =
            [dns_ok (local c),
             ratioAtLeastHalf (successCount (servers c)) (totalCount (servers c)),
             successCount (online c) > 0,
             http_ok (http c),
             ssl_ok (ssl c)];
          successCount = count_true checks;
          totalChecks = length checks
      in \<lparr> success = (successCount \<ge> 3),
           successScore = successCount,
           totalChecks = totalChecks,
           successPercentage = js_round (rat_of_nat successCount / rat_of_nat totalChecks * 100),
           details = checks \<rparr>)"

definition performComprehensiveCheck :: "string \<Rightarrow> probes \<Rightarrow> check" where
  "performComprehensiveCheck target p =
     (let parts = \<lparr> local = checkLocalDNS target p,
                    servers = checkDNSServers target p,
                    online = checkOnlineServices target p,
                    http = checkHTTPAccess p,
                    ssl = checkSSLCertificate p \<rparr>
      in check_parts.extend parts (check.fields (calculateOverallSuccess parts)))"

subsection \<open>Reports\<close>

datatype priority = High | Medium

datatype recommendation_type =
  Rec_dns_resolution | Rec_dns_propagation | Rec_http_configuration | Rec_ssl_certificate
  | Rec_timeout

type_synonym recommendation = "recommendation_type \<times> priority"

text \<open>
  What an \<^verbatim>\<open>async\<close> function of the verifier can reject with: the TypeError of a
  property read on \<^verbatim>\<open>null\<close>, or the error of a failed file-system call.
\<close>

datatype js_error = TypeError string | FsError string

text \<open>
  \<^verbatim>\<open>generateRecommendations(check, status)\<close>. Its first statement reads
  \<^verbatim>\<open>check.local.success\<close>, which throws when \<^verbatim>\<open>check\<close> is \<^verbatim>\<open>null\<close>.
\<close>

definition generateRecommendations :: "check option \<Rightarrow> string \<Rightarrow> js_error + recommendation list" where
  "generateRecommendations finalCheck status =
     (case finalCheck of
        None \<Rightarrow> Inl (TypeError ''Cannot read properties of null'')
      | Some c \<Rightarrow> Inr
          ((if \<not> dns_ok (local c) then [(Rec_dns_resolution, High)] else []) @
           (if rat_of_nat (successCount (servers c)) < rat_of_nat (totalCount (servers c)) * (1 / 2)
            then [(Rec_dns_propagation, Medium)] else []) @
           (if \<not> http_ok (http c) \<and> dns_ok (local c)
            then [(Rec_http_configuration, High)] else []) @
           (if \<not> ssl_ok (ssl c) then [(Rec_ssl_certificate, Medium)] else []) @
           (if status = ''timeout'' then [(Rec_timeout, High)] else [])))"

text \<open>
  The next-step strings start with an emoji, given here by its UTF-8 bytes.
\<close>

definition check_mark :: string where
  "check_mark = [CHR 0xE2, CHR 0x9C, CHR 0x85]"

definition magnifier :: string where
  "magnifier = [CHR 0xF0, CHR 0x9F, CHR 0x94, CHR 0x8D]"

definition bar_chart :: string where
  "bar_chart = [CHR 0xF0, CHR 0x9F, CHR 0x93, CHR 0x8A]"

definition warning_sign :: string where
  "warning_sign = [CHR 0xE2, CHR 0x9A, CHR 0xA0, CHR 0xEF, CHR 0xB8, CHR 0x8F]"

definition arrows :: string where
  "arrows = [CHR 0xF0, CHR 0x9F, CHR 0x94, CHR 0x84]"

definition telephone :: string where
  "telephone = [CHR 0xF0, CHR 0x9F, CHR 0x93, CHR 0x9E]"

definition hourglass :: string where
  "hourglass = [CHR 0xE2, CHR 0x8F, CHR 0xB3]"

definition clipboard :: string where
  "clipboard = [CHR 0xF0, CHR 0x9F, CHR 0x93, CHR 0x8B]"

definition generateNextSteps :: "check option \<Rightarrow> string \<Rightarrow> string list" where
  "generateNextSteps finalCheck status =
     (if status = ''success'' then
        [check_mark @ '' DNS is fully operational'',
         magnifier @ '' Monitor with: node dns-monitor.js'',
         bar_chart @ '' Set up continuous monitoring'']
      else if status = ''timeout'' then
        [warning_sign @ ''  Consider manual DNS configuration'',
         arrows @ '' Try alternative DNS provider (Cloudflare)'',
         telephone @ '' Contact domain registrar support'']
      else
        [hourglass @ '' Continue waiting for DNS propagation'',
         magnifier @ '' Run verification again in 30 minutes'',
         clipboard @ '' Check DNS record configuration''])"

record report =
  summary_status :: string
  checksPerformed :: nat
  finalState :: "check option"
  recommendations :: "recommendation list"
  nextSteps :: "string list"

text \<open>
  \<^verbatim>\<open>generateFinalReport(finalCheck, startTime, status)\<close>: the report object is built
  (the recommendations first, then the next steps), then written to a file, then
  returned. \<open>written\<close> is the outcome of \<^verbatim>\<open>fs.mkdir\<close> and \<^verbatim>\<open>fs.writeFile\<close>;
  \<open>n\<close> is \<^verbatim>\<open>this.results.length\<close>. The duration and the timestamp of the summary
  are left out.
\<close>

definition generateFinalReport ::
  "unit awaited \<Rightarrow> nat \<Rightarrow> check option \<Rightarrow> string \<Rightarrow> js_error + report" where
  "generateFinalReport written n finalCheck st =
     (case generateRecommendations finalCheck st of
        Inl e \<Rightarrow> Inl e
      | Inr recs \<Rightarrow>
          (let report = \<lparr> summary_status = st, checksPerformed = n, finalState = finalCheck,
                          recommendations = recs,
                          nextSteps = generateNextSteps finalCheck st \<rparr>
           in case written of
                Rejected msg \<Rightarrow> Inl (FsError msg)
              | Fulfilled u \<Rightarrow> Inr report))"

subsection \<open>verify: the polling loop\<close>

record verifier_config =
  cfg_target :: string
  cfg_timeout :: int
  cfg_checkInterval :: int

text \<open>
  The surroundings of one run of \<^verbatim>\<open>verify\<close>: the probes of the initial check and the
  milliseconds it took (the interval timer is armed after it); for the \<open>k\<close>-th tick of
  the timer, the milliseconds by which it fires late, the probes of the check that it
  starts and the milliseconds that this check takes; and the outcome of writing the
  report file.
\<close>

record verify_env =
  initialProbes :: probes
  initialDuration :: nat
  tickLateness :: "nat \<Rightarrow> nat"
  tickProbes :: "nat \<Rightarrow> probes"
  checkDuration :: "nat \<Rightarrow> nat"
  reportWritten :: "unit awaited"

text \<open>
  \<^verbatim>\<open>setInterval(f, delay)\<close> of Node.js: a delay below 1 or above \<open>2^31 - 1\<close>
  milliseconds is set to 1.
\<close>

definition timerDelay :: "int \<Rightarrow> int" where
  "timerDelay d = (if d < 1 \<or> d > 2147483647 then 1 else d)"

text \<open>
  \<^verbatim>\<open>Date.now() - startTime\<close> at tick \<open>k\<close> (the first tick is tick 0): every tick
  fires one delay, and its lateness, after the tick before it.
\<close>

fun elapsedAtTick :: "verifier_config \<Rightarrow> verify_env \<Rightarrow> nat \<Rightarrow> int" where
  "elapsedAtTick cfg env 0 =
     int (initialDuration env) + timerDelay (cfg_checkInterval cfg) + int (tickLateness env 0)"
| "elapsedAtTick cfg env (Suc k) =
     elapsedAtTick cfg env k + timerDelay (cfg_checkInterval cfg) + int (tickLateness env (Suc k))"

text \<open>
  The callback is \<^verbatim>\<open>async\<close>: a tick fires whether or not the checks of earlier ticks
  have finished. A check that a tick has started is kept with the time at which it
  finishes and the number of its tick. Checks finish in the order of these times, and
  in the order of their ticks when the times are equal.
\<close>

type_synonym started_check = "int \<times> nat \<times> check"

definition finishesBefore :: "started_check \<Rightarrow> started_check \<Rightarrow> bool" where
  "finishesBefore a b = (fst a < fst b \<or> (fst a = fst b \<and> fst (snd a) \<le> fst (snd b)))"

fun firstFinished :: "started_check list \<Rightarrow> started_check option" where
  "firstFinished [] = None"
| "firstFinished (a # rest) =
     (case firstFinished rest of
        None \<Rightarrow> Some a
      | Some b \<Rightarrow> if finishesBefore a b then Some a else Some b)"

fun lastFinished :: "started_check list \<Rightarrow> started_check option" where
  "lastFinished [] = None"
| "lastFinished (a # rest) =
     (case lastFinished rest of
        None \<Rightarrow> Some a
      | Some b \<Rightarrow> if finishesBefore b a then Some a else Some b)"

text \<open>
  The checks that have finished when a tick fires at time \<open>now\<close>. A timer that is due
  runs before the continuations of the same turn of the event loop, so a check that
  finishes in the millisecond of the tick has not finished yet.
\<close>

definition finishedAt :: "int \<Rightarrow> started_check list \<Rightarrow> started_check list" where
  "finishedAt now started = filter (\<lambda>a. fst a < now) started"

text \<open>
  The first check that finished with success before \<open>now\<close>: its continuation has
  called \<^verbatim>\<open>resolve\<close> with the report of status \<^verbatim>\<open>success\<close>.
\<close>

definition succeededAt :: "int \<Rightarrow> started_check list \<Rightarrow> started_check option" where
  "succeededAt now started =
     firstFinished (filter (\<lambda>a. success (overall (snd (snd a)))) (finishedAt now started))"

text \<open>
  What the promise of \<^verbatim>\<open>verify\<close> is resolved with, seen at the tick that fires at
  \<open>now\<close>: the success report of the first check that succeeded, built when that check
  finished, or else the timeout report that this tick builds from \<^verbatim>\<open>lastCheck\<close>, the
  check that finished last (\<^verbatim>\<open>null\<close> if none has). \<^verbatim>\<open>this.results.length\<close> counts
  the initial check and the checks finished by then.
\<close>

definition resolveAtTick :: "verify_env \<Rightarrow> int \<Rightarrow> started_check list \<Rightarrow> js_error + report" where
  "resolveAtTick env now started =
     (case succeededAt now started of
        Some a \<Rightarrow>
          generateFinalReport (reportWritten env)
            (1 + length (filter (\<lambda>b. finishesBefore b a) started))
            (Some (snd (snd a))) ''success''
      | None \<Rightarrow>
          generateFinalReport (reportWritten env)
            (1 + length (finishedAt now started))
            (map_option (\<lambda>a. snd (snd a)) (lastFinished (finishedAt now started)))
            ''timeout'')"

text \<open>
  The callback of \<^verbatim>\<open>setInterval\<close> in \<^verbatim>\<open>verify\<close>, as a loop over the ticks. As long as
  no check has succeeded and the timeout has not elapsed, the tick starts a check
  and the timer goes on; otherwise the promise is resolved and the timer is cleared.
\<close>

function verifyLoop ::
  "verifier_config \<Rightarrow> verify_env \<Rightarrow> nat \<Rightarrow> started_check list \<Rightarrow> js_error + report" where
  "verifyLoop cfg env k started =
     (if succeededAt (elapsedAtTick cfg env k) started = None
         \<and> elapsedAtTick cfg env k < cfg_timeout cfg
      then verifyLoop cfg env (Suc k)
             (started @
               [(elapsedAtTick cfg env k + int (checkDuration env k), k,
                 performComprehensiveCheck (cfg_target cfg) (tickProbes env k))])
      else resolveAtTick env (elapsedAtTick cfg env k) started)"
  by pat_completeness auto
termination
proof (relation "measure (\<lambda>(cfg, env, k, started). nat (cfg_timeout cfg - elapsedAtTick cfg env k))")
  show "wf (measure (\<lambda>(cfg, env, k, started). nat (cfg_timeout cfg - elapsedAtTick cfg env k)))"
    by simp
next
  fix cfg :: verifier_config and env :: verify_env and k :: nat
    and started :: "started_check list"
  assume a: "succeededAt (elapsedAtTick cfg env k) started = None
      \<and> elapsedAtTick cfg env k < cfg_timeout cfg"
  have "1 \<le> timerDelay (cfg_checkInterval cfg)"
    by (simp add: timerDelay_def)
  then have "elapsedAtTick cfg env k < elapsedAtTick cfg env (Suc k)"
    by simp
  with a show "((cfg, env, Suc k,
        started @
          [(elapsedAtTick cfg env k + int (checkDuration env k), k,
            performComprehensiveCheck (cfg_target cfg) (tickProbes env k))]),
       (cfg, env, k, started))
      \<in> measure (\<lambda>(cfg, env, k, started). nat (cfg_timeout cfg - elapsedAtTick cfg env k))"
    by simp
qed

declare verifyLoop.simps [simp del]

definition verify :: "verifier_config \<Rightarrow> verify_env \<Rightarrow> js_error + report" where
  "verify cfg env =
     (let initialCheck = performComprehensiveCheck (cfg_target cfg) (initialProbes env)
      in if success (overall initialCheck)
         then generateFinalReport (reportWritten env) 1 (Some initialCheck) ''unknown''
         else verifyLoop cfg env 0 [])"

text \<open>
  A run in which nothing resolves: every DNS query fails, every HTTP request fails and
  the TLS probe reports an error. The configuration is the one the command line
  \<^verbatim>\<open>node dns-verifier.js candlefish.ai fogg fogg-calendar.netlify.app 5000\<close> builds:
  a timeout of 5000 ms with the default check interval of 10000 ms.
\<close>

definition nothingResolves :: probes where
  "nothingResolves =
     \<lparr> resolveLocal = Rejected ''queryCname ENOTFOUND fogg.candlefish.ai'',
       resolveVia = (\<lambda>address. Rejected ''queryCname ENOTFOUND fogg.candlefish.ai''),
       fetchOnline = (\<lambda>name. Rejected ''Request failed with status code 404''),
       httpGet = Rejected ''getaddrinfo ENOTFOUND fogg.candlefish.ai'',
       tlsProbe = SslError ''getaddrinfo ENOTFOUND fogg.candlefish.ai'' \<rparr>"

definition shortTimeoutConfig :: verifier_config where
  "shortTimeoutConfig =
     \<lparr> cfg_target = ''fogg-calendar.netlify.app'', cfg_timeout = 5000,
       cfg_checkInterval = 10000 \<rparr>"

definition nothingResolvesRun :: verify_env where
  "nothingResolvesRun =
     \<lparr> initialProbes = nothingResolves, initialDuration = 300,
       tickLateness = (\<lambda>k. 0), tickProbes = (\<lambda>k. nothingResolves),
       checkDuration = (\<lambda>k. 300), reportWritten = Fulfilled () \<rparr>"

text \<open>
  A run in which the first check of the timer is still under way when the next tick
  finds the timeout elapsed: timeout 650 ms, interval 200 ms, an initial check of
  301 ms, and checks of 250 ms.
\<close>

definition overlapConfig :: verifier_config where
  "overlapConfig =
     \<lparr> cfg_target = ''fogg-calendar.netlify.app'', cfg_timeout = 650,
       cfg_checkInterval = 200 \<rparr>"

definition overlapRun :: verify_env where
  "overlapRun =
     \<lparr> initialProbes = nothingResolves, initialDuration = 301,
       tickLateness = (\<lambda>k. 0), tickProbes = (\<lambda>k. nothingResolves),
       checkDuration = (\<lambda>k. 250), reportWritten = Fulfilled () \<rparr>"

section \<open>dns-monitor.js: status changes and alerts\<close>

text \<open>
  The fields of the monitor that \<^verbatim>\<open>handleStatusChange\<close> reads and writes. Of
  \<^verbatim>\<open>this.lastStatus\<close> only \<^verbatim>\<open>overall\<close> is read, so that is what is kept.
\<close>

record monitor_state =
  consecutiveFailures :: nat
  lastStatus :: "overall_health option"

definition initialMonitor :: monitor_state where
  "initialMonitor = \<lparr> consecutiveFailures = 0, lastStatus = None \<rparr>"

text \<open>
  The calls of \<^verbatim>\<open>sendAlert\<close>, by type: \<^verbatim>\<open>recovery\<close> and \<^verbatim>\<open>failure\<close> with the number
  of consecutive failures in their message, \<^verbatim>\<open>status_change\<close> with the new status
  (\<open>True\<close> for \<^verbatim>\<open>healthy\<close>). \<^verbatim>\<open>sendAlert\<close> catches the errors of its channels.
\<close>

datatype alert = Recovery nat | Failure nat | Status_change bool

definition wasHealthy :: "monitor_state \<Rightarrow> bool" where
  "wasHealthy st = (case lastStatus st of None \<Rightarrow> False | Some ov \<Rightarrow> healthy ov)"

definition handleStatusChange ::
  "nat \<Rightarrow> monitor_state \<Rightarrow> overall_health \<Rightarrow> alert list \<times> monitor_state" where
  "handleStatusChange alertThreshold st ov =
     (let isHealthy = healthy ov;
          (sent, failures) =
            (if isHealthy
             then ((if consecutiveFailures st > 0 then [Recovery (consecutiveFailures st)] else []),
                   0)
             else (let n = consecutiveFailures st + 1
                   in ((if n \<ge> alertThreshold then [Failure n] else []), n)));
          changed = (if wasHealthy st \<noteq> isHealthy then [Status_change isHealthy] else [])
      in (sent @ changed, \<lparr> consecutiveFailures = failures, lastStatus = Some ov \<rparr>))"

text \<open>
  The monitor processing a sequence of health-check results, one
  \<^verbatim>\<open>performHealthCheck\<close> after the other: each result gets its overall health and is
  handed to \<^verbatim>\<open>handleStatusChange\<close>. The value is the list of alerts sent, in order.
\<close>

fun processChecks :: "nat \<Rightarrow> monitor_state \<Rightarrow> health_results list \<Rightarrow> alert list" where
  "processChecks alertThreshold st [] = []"
| "processChecks alertThreshold st (r # rs) =
     (let (sent, st') = handleStatusChange alertThreshold st (calculateOverallHealth r)
      in sent @ processChecks alertThreshold st' rs)"

definition statusChanges :: "alert list \<Rightarrow> bool list" where
  "statusChanges as = concat (map (\<lambda>a. case a of Status_change h \<Rightarrow> [h] | _ \<Rightarrow> []) as)"

text \<open>
  The changes of a sequence of health flags: the flags that differ from the flag before
  them, the first flag being compared with \<open>prev\<close>.
\<close>

fun flips :: "bool \<Rightarrow> bool list \<Rightarrow> bool list" where
  "flips prev [] = []"
| "flips prev (h # hs) = (if h \<noteq> prev then [h] else []) @ flips h hs"

section \<open>performance-optimizer.js: PerformanceOptimizer\<close>

record endpoint =
  ep_name :: string
  ep_url :: string
  ep_priority :: nat

definition cdnEndpoints :: "endpoint list" where
  "cdnEndpoints =
     [\<lparr> ep_name = ''Netlify'', ep_url = ''https://fogg-calendar.netlify.app'', ep_priority = 1 \<rparr>,
      \<lparr> ep_name = ''Cloudflare'', ep_url = ''https://fogg.candlefish.ai'', ep_priority = 2 \<rparr>,
      \<lparr> ep_name = ''Direct'', ep_url = ''https://candlefish.ai/fogg'', ep_priority = 3 \<rparr>]"

text \<open>
  One entry of \<^verbatim>\<open>measurements\<close>. The response time is a difference of two readings of
  \<^verbatim>\<open>performance.now()\<close> in milliseconds, or the number \<open>-1\<close> after an error; doubles
  compare as the rationals they denote.
\<close>

record measurement =
  m_endpoint :: endpoint
  responseTime :: rat
  m_status :: "nat option"
  m_error :: "string option"
  available :: bool

text \<open>
  One round of the loop of \<^verbatim>\<open>measureCDNPerformance\<close>: the outcome of
  \<^verbatim>\<open>axios.head(endpoint.url)\<close> is the status with the time the request took, or an
  error.
\<close>

definition measureEndpoint :: "(string \<Rightarrow> (nat \<times> rat) awaited) \<Rightarrow> endpoint \<Rightarrow> measurement" where
  "measureEndpoint head e =
     (case head (ep_url e) of
        Fulfilled (code, elapsed) \<Rightarrow>
          \<lparr> m_endpoint = e, responseTime = elapsed, m_status = Some code, m_error = None,
            available = (code < 500) \<rparr>
      | Rejected msg \<Rightarrow>
          \<lparr> m_endpoint = e, responseTime = - 1, m_status = None, m_error = Some msg,
            available = False \<rparr>)"

text \<open>The comparator handed to \<^verbatim>\<open>measurements.sort\<close>.\<close>

definition compareMeasurements :: "measurement \<Rightarrow> measurement \<Rightarrow> rat" where
  "compareMeasurements a b =
     (if available a \<and> \<not> available b then - 1
      else if \<not> available a \<and> available b then 1
      else if responseTime a = - 1 then 1
      else if responseTime b = - 1 then - 1
      else responseTime a - responseTime b)"

text \<open>
  \<^verbatim>\<open>Array.prototype.sort\<close> with a comparator, as the stable insertion sort that the
  engine runs on short arrays: each element in turn is inserted into the sorted prefix,
  behind every element that it does not compare below.
\<close>

fun insertBy :: "('a \<Rightarrow> 'a \<Rightarrow> rat) \<Rightarrow> 'a \<Rightarrow> 'a list \<Rightarrow> 'a list" where
  "insertBy cmp x [] = [x]"
| "insertBy cmp x (y # ys) = (if cmp x y < 0 then x # y # ys else y # insertBy cmp x ys)"

definition sortBy :: "('a \<Rightarrow> 'a \<Rightarrow> rat) \<Rightarrow> 'a list \<Rightarrow> 'a list" where
  "sortBy cmp xs = foldl (\<lambda>sorted x. insertBy cmp x sorted) [] xs"

definition measureCDNPerformance ::
  "(string \<Rightarrow> (nat \<times> rat) awaited) \<Rightarrow> endpoint list \<Rightarrow> measurement list" where
  "measureCDNPerformance head endpoints =
     sortBy compareMeasurements (map (measureEndpoint head) endpoints)"

datatype optimal_endpoint = Measured measurement | PrimaryFallback string

definition getOptimalEndpoint ::
  "string \<Rightarrow> (string \<Rightarrow> (nat \<times> rat) awaited) \<Rightarrow> endpoint list \<Rightarrow> optimal_endpoint" where
  "getOptimalEndpoint primaryUrl head endpoints =
     (case filter available (measureCDNPerformance head endpoints) of
        m # rest \<Rightarrow> Measured m
      | [] \<Rightarrow> PrimaryFallback primaryUrl)"

text \<open>
  The order that the comparator describes: available entries first, and within each
  group by response time, entries marked \<open>-1\<close> last.
\<close>

definition ranksBefore :: "measurement \<Rightarrow> measurement \<Rightarrow> bool" where
  "ranksBefore a b =
     (if available a = available b
      then responseTime b = - 1 \<or> (responseTime a \<noteq> - 1 \<and> responseTime a \<le> responseTime b)
      else available a)"

text \<open>Every request that gets a response took a non-negative time.\<close>

definition timesNonNegative :: "(string \<Rightarrow> (nat \<times> rat) awaited) \<Rightarrow> endpoint list \<Rightarrow> bool" where
  "timesNonNegative head endpoints =
     list_all (\<lambda>e. case head (ep_url e) of Fulfilled (code, elapsed) \<Rightarrow> 0 \<le> elapsed
                                         | Rejected msg \<Rightarrow> True) endpoints"

text \<open>A sample network: Netlify answers 503, Cloudflare 200 in 120.5 ms, Direct 301 in 80 ms.\<close>

definition sampleHead :: "string \<Rightarrow> (nat \<times> rat) awaited" where
  "sampleHead url =
     (if url = ''https://fogg-calendar.netlify.app'' then Fulfilled (503, 20)
      else if url = ''https://fogg.candlefish.ai'' then Fulfilled (200, 241 / 2)
      else if url = ''https://candlefish.ai/fogg'' then Fulfilled (301, 80)
      else Rejected ''getaddrinfo ENOTFOUND'')"

section \<open>Providers: credentials and health checks\<close>

text \<open>
  The three providers that load credentials: \<^verbatim>\<open>PorkbunProvider\<close> of
  dns-management-system.js, and \<^verbatim>\<open>CloudflareProvider\<close> and \<^verbatim>\<open>NetlifyDNSProvider\<close>
  of dns-providers/.
\<close>

datatype provider_kind = Porkbun | Cloudflare | Netlify

definition providerName :: "provider_kind \<Rightarrow> string" where
  "providerName p = (case p of Porkbun \<Rightarrow> ''Porkbun'' | Cloudflare \<Rightarrow> ''Cloudflare''
                      | Netlify \<Rightarrow> ''Netlify'')"

text \<open>A credentials object: its fields with their string values.\<close>

type_synonym creds = "(string \<times> string) list"

text \<open>
  The machine the providers run on: \<^verbatim>\<open>process.env\<close>, and for each path of a
  credentials file the object that \<^verbatim>\<open>JSON.parse(await fs.readFile(path))\<close> gives, or
  \<open>None\<close> when reading or parsing throws or the file holds \<^verbatim>\<open>null\<close>.
\<close>

record system =
  environ :: "string \<Rightarrow> string option"
  credsFile :: "string \<Rightarrow> creds option"

text \<open>A variable of the environment is truthy when it is set to a non-empty string.\<close>

definition envValue :: "system \<Rightarrow> string \<Rightarrow> string option" where
  "envValue sys var = (case environ sys var of None \<Rightarrow> None
                        | Some v \<Rightarrow> if v = [] then None else Some v)"

definition loadFromEnvironment :: "provider_kind \<Rightarrow> system \<Rightarrow> creds option" where
  "loadFromEnvironment p sys =
     (case p of
        Porkbun \<Rightarrow>
          (case (envValue sys ''PORKBUN_API_KEY'', envValue sys ''PORKBUN_SECRET_KEY'') of
             (Some k, Some s) \<Rightarrow> Some [(''apiKey'', k), (''secretKey'', s)]
           | _ \<Rightarrow> None)
      | Cloudflare \<Rightarrow>
          (case envValue sys ''CLOUDFLARE_API_TOKEN'' of
             Some t \<Rightarrow> Some [(''apiToken'', t)] | None \<Rightarrow> None)
      | Netlify \<Rightarrow>
          (case envValue sys ''NETLIFY_ACCESS_TOKEN'' of
             Some t \<Rightarrow> Some [(''accessToken'', t)] | None \<Rightarrow> None))"

definition credsPath :: "provider_kind \<Rightarrow> string" where
  "credsPath p = (case p of Porkbun \<Rightarrow> ''config/porkbun-creds.json''
                    | Cloudflare \<Rightarrow> ''config/cloudflare-creds.json''
                    | Netlify \<Rightarrow> ''config/netlify-creds.json'')"

definition loadFromFile :: "provider_kind \<Rightarrow> system \<Rightarrow> creds option" where
  "loadFromFile p sys = credsFile sys (credsPath p)"

text \<open>\<^verbatim>\<open>loadFromAWSSecrets\<close> is a stub in all three providers: it returns \<^verbatim>\<open>null\<close>.\<close>

definition loadFromAWSSecrets :: "provider_kind \<Rightarrow> system \<Rightarrow> creds option" where
  "loadFromAWSSecrets p sys = None"

datatype credential_source = FromEnvironment | FromFile | FromAWSSecrets

definition loadFrom :: "credential_source \<Rightarrow> provider_kind \<Rightarrow> system \<Rightarrow> creds option" where
  "loadFrom s = (case s of FromEnvironment \<Rightarrow> loadFromEnvironment
                   | FromFile \<Rightarrow> loadFromFile
                   | FromAWSSecrets \<Rightarrow> loadFromAWSSecrets)"

text \<open>The array \<^verbatim>\<open>sources\<close> of each \<^verbatim>\<open>loadCredentials\<close>, in the order it is written.\<close>

definition sources :: "provider_kind \<Rightarrow> credential_source list" where
  "sources p = (case p of
                  Porkbun \<Rightarrow> [FromEnvironment, FromAWSSecrets, FromFile]
                | Cloudflare \<Rightarrow> [FromEnvironment, FromFile, FromAWSSecrets]
                | Netlify \<Rightarrow> [FromEnvironment, FromFile, FromAWSSecrets])"

text \<open>
  The loop of \<^verbatim>\<open>loadCredentials\<close>: each source is called in turn and the first truthy
  value is returned; sources behind it are not called. The first component lists the
  sources that were called.
\<close>

fun trySources ::
  "provider_kind \<Rightarrow> system \<Rightarrow> credential_source list \<Rightarrow> credential_source list \<times> creds option" where
  "trySources p sys [] = ([], None)"
| "trySources p sys (s # rest) =
     (case loadFrom s p sys of
        Some c \<Rightarrow> ([s], Some c)
      | None \<Rightarrow> (let (tried, found) = trySources p sys rest in (s # tried, found)))"

definition loadCredentials ::
  "provider_kind \<Rightarrow> system \<Rightarrow> credential_source list \<times> (string + creds)" where
  "loadCredentials p sys =
     (let (tried, found) = trySources p sys (sources p)
      in (tried, case found of
                   Some c \<Rightarrow> Inr c
                 | None \<Rightarrow> Inl (''No valid '' @ providerName p @ '' credentials found'')))"

text \<open>The fields that the requests of each provider read from its credentials.\<close>

definition requiredFields :: "provider_kind \<Rightarrow> string list" where
  "requiredFields p = (case p of Porkbun \<Rightarrow> [''apiKey'', ''secretKey'']
                         | Cloudflare \<Rightarrow> [''apiToken'']
                         | Netlify \<Rightarrow> [''accessToken''])"

definition complete :: "provider_kind \<Rightarrow> creds \<Rightarrow> bool" where
  "complete p c = list_all (\<lambda>f. case map_of c f of Some v \<Rightarrow> v \<noteq> [] | None \<Rightarrow> False)
                    (requiredFields p)"

subsection \<open>healthCheck\<close>

record health =
  hc_healthy :: bool
  hc_error :: "string option"

text \<open>
  The body of a reply of the Porkbun API (\<^verbatim>\<open>response.data\<close>) with the fields that the
  provider reads, and the body of a Cloudflare reply with its \<^verbatim>\<open>result\<close>. The
  \<^verbatim>\<open>success\<close> field of a Cloudflare reply is a boolean, as that API documents it.
\<close>

record porkbun_data =
  pb_status :: "string option"
  pb_id :: "string option"
  pb_message :: "string option"

record 'r cf_reply =
  cf_success :: bool
  cf_result :: 'r
  cf_errors :: "string list"

text \<open>
  The outcome of the one request of each health check: the reply body (\<open>None\<close> when
  \<^verbatim>\<open>response.data\<close> is \<^verbatim>\<open>null\<close>) or the error that axios throws on a network error,
  a timeout or an error status. For Netlify the reply is the HTTP status with
  \<^verbatim>\<open>data.error_message\<close>.
\<close>

record network =
  pbPing :: "creds \<Rightarrow> porkbun_data option awaited"
  cfVerify :: "creds \<Rightarrow> unit cf_reply option awaited"
  nfUser :: "creds \<Rightarrow> (nat \<times> string option) option awaited"

definition nullData :: string where
  "nullData = ''Cannot read properties of null''"

text \<open>
  The \<^verbatim>\<open>try\<close> block of each \<^verbatim>\<open>healthCheck\<close>: \<open>Inl\<close> is the message of the error it
  throws, \<open>Inr\<close> the object it returns.
\<close>

definition healthCheckTry :: "provider_kind \<Rightarrow> system \<Rightarrow> network \<Rightarrow> string + health" where
  "healthCheckTry p sys net =
     (case snd (loadCredentials p sys) of
        Inl msg \<Rightarrow> Inl msg
      | Inr c \<Rightarrow>
          (case p of
             Porkbun \<Rightarrow>
               (case pbPing net c of
                  Rejected msg \<Rightarrow> Inl msg
                | Fulfilled None \<Rightarrow> Inl nullData
                | Fulfilled (Some d) \<Rightarrow>
                    Inr \<lparr> hc_healthy = (pb_status d = Some ''SUCCESS''),
                          hc_error = pb_message d \<rparr>)
           | Cloudflare \<Rightarrow>
               (case cfVerify net c of
                  Rejected msg \<Rightarrow> Inl msg
                | Fulfilled None \<Rightarrow> Inl nullData
                | Fulfilled (Some d) \<Rightarrow>
                    Inr \<lparr> hc_healthy = cf_success d,
                          hc_error = (case cf_errors d of [] \<Rightarrow> None | e # es \<Rightarrow> Some e) \<rparr>)
           | Netlify \<Rightarrow>
               (case nfUser net c of
                  Rejected msg \<Rightarrow> Inl msg
                | Fulfilled None \<Rightarrow> Inl nullData
                | Fulfilled (Some (code, error_message)) \<Rightarrow>
                    Inr \<lparr> hc_healthy = (code = 200), hc_error = error_message \<rparr>)))"

definition unreachable :: "provider_kind \<Rightarrow> string" where
  "unreachable p = (case p of Porkbun \<Rightarrow> ''API unreachable: ''
                      | Cloudflare \<Rightarrow> ''Cloudflare API unreachable: ''
                      | Netlify \<Rightarrow> ''Netlify API unreachable: '')"

text \<open>
  \<^verbatim>\<open>healthCheck\<close>: the \<^verbatim>\<open>try\<close> block with its \<^verbatim>\<open>catch\<close>. The value is \<open>Inl\<close> if an
  error leaves the function and \<open>Inr\<close> if it returns.
\<close>

definition healthCheck :: "provider_kind \<Rightarrow> system \<Rightarrow> network \<Rightarrow> string + health" where
  "healthCheck p sys net =
     (case healthCheckTry p sys net of
        Inl msg \<Rightarrow> Inr \<lparr> hc_healthy = False, hc_error = Some (unreachable p @ msg) \<rparr>
      | Inr h \<Rightarrow> Inr h)"

text \<open>
  The \<^verbatim>\<open>healthCheck\<close> of the classes \<^verbatim>\<open>CloudflareProvider\<close> and
  \<^verbatim>\<open>NetlifyDNSProvider\<close> that dns-management-system.js defines for itself.
\<close>

definition stubHealthCheck :: "string + health" where
  "stubHealthCheck = Inr \<lparr> hc_healthy = False, hc_error = Some ''Not implemented yet'' \<rparr>"

text \<open>
  \<^verbatim>\<open>this.credentials\<close> after \<^verbatim>\<open>healthCheck\<close>: assigned when \<^verbatim>\<open>loadCredentials\<close>
  returns, left as it was when it throws.
\<close>

definition credentialsAfter :: "provider_kind \<Rightarrow> system \<Rightarrow> creds option \<Rightarrow> creds option" where
  "credentialsAfter p sys before =
     (case snd (loadCredentials p sys) of Inl msg \<Rightarrow> before | Inr c \<Rightarrow> Some c)"

text \<open>
  Sample machines: one without any credentials, one whose Porkbun credentials file
  holds an API key and no secret key, and one with a Cloudflare token in the
  environment. Sample networks: one where every request fails, one where every
  request is answered with success.
\<close>

definition bareSystem :: system where
  "bareSystem = \<lparr> environ = (\<lambda>var. None), credsFile = (\<lambda>path. None) \<rparr>"

definition halfFileSystem :: system where
  "halfFileSystem =
     \<lparr> environ = (\<lambda>var. None),
       credsFile = (\<lambda>path. if path = ''config/porkbun-creds.json''
                            then Some [(''apiKey'', ''pk1_abc'')] else None) \<rparr>"

definition tokenSystem :: system where
  "tokenSystem =
     \<lparr> environ = (\<lambda>var. if var = ''CLOUDFLARE_API_TOKEN'' then Some ''cf_token'' else None),
       credsFile = (\<lambda>path. None) \<rparr>"

definition deadNetwork :: network where
  "deadNetwork =
     \<lparr> pbPing = (\<lambda>c. Rejected ''timeout of 10000ms exceeded''),
       cfVerify = (\<lambda>c. Rejected ''timeout of 10000ms exceeded''),
       nfUser = (\<lambda>c. Rejected ''timeout of 10000ms exceeded'') \<rparr>"

definition liveNetwork :: network where
  "liveNetwork =
     \<lparr> pbPing = (\<lambda>c. Fulfilled (Some \<lparr> pb_status = Some ''SUCCESS'', pb_id = None,
                                       pb_message = None \<rparr>)),
       cfVerify = (\<lambda>c. Fulfilled (Some \<lparr> cf_success = True, cf_result = (),
                                         cf_errors = [] \<rparr>)),
       nfUser = (\<lambda>c. Fulfilled (Some (200, None))) \<rparr>"

text \<open>The request of the health check of \<open>p\<close> throws an error with message \<open>msg\<close>.\<close>

definition requestFails :: "provider_kind \<Rightarrow> network \<Rightarrow> creds \<Rightarrow> string \<Rightarrow> bool" where
  "requestFails p net c msg =
     (case p of Porkbun \<Rightarrow> pbPing net c = Rejected msg
              | Cloudflare \<Rightarrow> cfVerify net c = Rejected msg
              | Netlify \<Rightarrow> nfUser net c = Rejected msg)"

section \<open>Providers: createRecord\<close>

record record_input =
  ri_domain :: string
  ri_subdomain :: string
  ri_target :: string
  ri_ttl :: nat

record create_result =
  cr_success :: bool
  cr_recordId :: "string option"
  cr_error :: "string option"

text \<open>
  The requests that the \<^verbatim>\<open>createRecord\<close> functions send:
  \<^verbatim>\<open>POST /dns/create/{domain}\<close> of Porkbun with name, content and ttl;
  \<^verbatim>\<open>GET /zones\<close> of Cloudflare with the domain; \<^verbatim>\<open>GET\<close>, \<^verbatim>\<open>POST\<close> and \<^verbatim>\<open>PUT\<close> on
  \<^verbatim>\<open>/zones/{zone}/dns_records\<close> with the zone first.
\<close>

datatype request =
  PorkbunCreate string string string nat
  | CfGetZones string
  | CfGetRecords string string
  | CfPostRecord string string string nat
  | CfPutRecord string string string nat

text \<open>Requests that add a record or change one.\<close>

definition writes :: "request \<Rightarrow> bool" where
  "writes q = (case q of PorkbunCreate d n c t \<Rightarrow> True
                | CfGetZones d \<Rightarrow> False
                | CfGetRecords z n \<Rightarrow> False
                | CfPostRecord z n c t \<Rightarrow> True
                | CfPutRecord z i c t \<Rightarrow> True)"

subsection \<open>PorkbunProvider.createRecord\<close>

text \<open>
  An axios call that either gets a reply or throws an error with its message and, when
  the server answered, with \<^verbatim>\<open>error.response.data.message\<close>.
\<close>

datatype 'a axios = Replied 'a | Failed string "string option"

definition porkbunError :: "string \<Rightarrow> string option \<Rightarrow> create_result" where
  "porkbunError msg detail =
     \<lparr> cr_success = False, cr_recordId = None,
       cr_error = Some (''Porkbun API error: '' @ msg @
                        (case detail of None \<Rightarrow> []
                         | Some d \<Rightarrow> if d = [] then [] else '' - '' @ d)) \<rparr>"

text \<open>
  \<^verbatim>\<open>createRecord\<close> of the Porkbun provider, with the requests it sends. With
  \<^verbatim>\<open>this.credentials\<close> still \<^verbatim>\<open>null\<close>, building the request body throws before
  anything is sent.
\<close>

definition porkbunCreateRecord ::
  "(creds \<Rightarrow> record_input \<Rightarrow> porkbun_data option axios) \<Rightarrow> creds option \<Rightarrow> record_input
     \<Rightarrow> request list \<times> create_result" where
  "porkbunCreateRecord post credentials r =
     (case credentials of
        None \<Rightarrow> ([], porkbunError nullData None)
      | Some c \<Rightarrow>
          ([PorkbunCreate (ri_domain r) (ri_subdomain r) (ri_target r) (ri_ttl r)],
           case post c r of
             Failed msg detail \<Rightarrow> porkbunError msg detail
           | Replied None \<Rightarrow> porkbunError nullData None
           | Replied (Some d) \<Rightarrow>
               \<lparr> cr_success = (pb_status d = Some ''SUCCESS''), cr_recordId = pb_id d,
                 cr_error = pb_message d \<rparr>))"

subsection \<open>CloudflareProvider.createRecord\<close>

record cloudflare_api =
  cfZones :: "creds \<Rightarrow> string \<Rightarrow> string list cf_reply option awaited"
  cfRecords :: "creds \<Rightarrow> string \<Rightarrow> string \<Rightarrow> string list cf_reply option awaited"
  cfPost :: "creds \<Rightarrow> string \<Rightarrow> record_input \<Rightarrow> string option cf_reply option awaited"
  cfPut :: "creds \<Rightarrow> string \<Rightarrow> string \<Rightarrow> record_input \<Rightarrow> unit cf_reply option awaited"

record cf_state =
  cf_credentials :: "creds option"
  cf_zoneId :: "string option"

definition firstError :: "string list \<Rightarrow> string option" where
  "firstError es = (case es of [] \<Rightarrow> None | e # rest \<Rightarrow> Some e)"

text \<open>
  Each helper gives the requests it sent and either the message of the error it threw
  or its value. \<^verbatim>\<open>getZoneId\<close> answers from \<^verbatim>\<open>this.zoneId\<close> when that is set; the zones
  in a reply are given by their ids.
\<close>

definition getZoneId ::
  "cloudflare_api \<Rightarrow> cf_state \<Rightarrow> string \<Rightarrow> request list \<times> (string + string \<times> cf_state)" where
  "getZoneId api st domain =
     (let fetch =
        (case cf_credentials st of
           None \<Rightarrow> ([], Inl nullData)
         | Some c \<Rightarrow>
             ([CfGetZones domain],
              case cfZones api c domain of
                Rejected msg \<Rightarrow> Inl msg
              | Fulfilled None \<Rightarrow> Inl nullData
              | Fulfilled (Some reply) \<Rightarrow>
                  (case cf_result reply of
                     [] \<Rightarrow> Inl (''Zone not found for domain: '' @ domain @
                                ''. Ensure domain is managed by Cloudflare.'')
                   | z # zs \<Rightarrow>
                       if \<not> cf_success reply
                       then Inl (''Zone not found for domain: '' @ domain @
                                 ''. Ensure domain is managed by Cloudflare.'')
                       else Inr (z, st\<lparr>cf_zoneId := Some z\<rparr>))))
      in case cf_zoneId st of
           None \<Rightarrow> fetch
         | Some z \<Rightarrow> if z = [] then fetch else ([], Inr (z, st)))"

text \<open>\<^verbatim>\<open>findExistingRecord\<close>: the id of the first CNAME record of that name, if any.\<close>

definition findExistingRecord ::
  "cloudflare_api \<Rightarrow> cf_state \<Rightarrow> string \<Rightarrow> string \<Rightarrow> request list \<times> (string + string option)" where
  "findExistingRecord api st zone name =
     (case cf_credentials st of
        None \<Rightarrow> ([], Inl nullData)
      | Some c \<Rightarrow>
          ([CfGetRecords zone name],
           case cfRecords api c zone name of
             Rejected msg \<Rightarrow> Inl msg
           | Fulfilled None \<Rightarrow> Inl nullData
           | Fulfilled (Some reply) \<Rightarrow>
               (case cf_result reply of
                  [] \<Rightarrow> Inr None
                | i # others \<Rightarrow> if cf_success reply then Inr (Some i) else Inr None)))"

definition createNewRecord ::
  "cloudflare_api \<Rightarrow> cf_state \<Rightarrow> string \<Rightarrow> record_input \<Rightarrow> request list \<times> (string + create_result)" where
  "createNewRecord api st zone r =
     (case cf_credentials st of
        None \<Rightarrow> ([], Inl nullData)
      | Some c \<Rightarrow>
          ([CfPostRecord zone (ri_subdomain r) (ri_target r) (ri_ttl r)],
           case cfPost api c zone r of
             Rejected msg \<Rightarrow> Inl msg
           | Fulfilled None \<Rightarrow> Inl nullData
           | Fulfilled (Some reply) \<Rightarrow>
               Inr \<lparr> cr_success = cf_success reply, cr_recordId = cf_result reply,
                     cr_error = firstError (cf_errors reply) \<rparr>))"

definition updateRecord ::
  "cloudflare_api \<Rightarrow> cf_state \<Rightarrow> string \<Rightarrow> string \<Rightarrow> record_input
     \<Rightarrow> request list \<times> (string + create_result)" where
  "updateRecord api st zone recordId r =
     (case cf_credentials st of
        None \<Rightarrow> ([], Inl nullData)
      | Some c \<Rightarrow>
          ([CfPutRecord zone recordId (ri_target r) (ri_ttl r)],
           case cfPut api c zone recordId r of
             Rejected msg \<Rightarrow> Inl msg
           | Fulfilled None \<Rightarrow> Inl nullData
           | Fulfilled (Some reply) \<Rightarrow>
               Inr \<lparr> cr_success = cf_success reply, cr_recordId = Some recordId,
                     cr_error = firstError (cf_errors reply) \<rparr>))"

definition cloudflareError :: "string \<Rightarrow> create_result" where
  "cloudflareError msg =
     \<lparr> cr_success = False, cr_recordId = None,
       cr_error = Some (''Cloudflare DNS error: '' @ msg) \<rparr>"

text \<open>
  \<^verbatim>\<open>createRecord\<close> of the Cloudflare provider: zone id, lookup, then update of the
  record found or creation of a new one; any error thrown on the way is caught and
  turned into a result. The value holds the requests sent, the result and the state of
  the provider afterwards.
\<close>

definition cloudflareCreateRecord ::
  "cloudflare_api \<Rightarrow> cf_state \<Rightarrow> record_input \<Rightarrow> request list \<times> create_result \<times> cf_state" where
  "cloudflareCreateRecord api st r =
     (case getZoneId api st (ri_domain r) of
        (sent0, Inl msg) \<Rightarrow> (sent0, cloudflareError msg, st)
      | (sent0, Inr (zone, st1)) \<Rightarrow>
          (case findExistingRecord api st1 zone (ri_subdomain r) of
             (sent1, Inl msg) \<Rightarrow> (sent0 @ sent1, cloudflareError msg, st1)
           | (sent1, Inr existingRecord) \<Rightarrow>
               (case (case existingRecord of
                        Some recordId \<Rightarrow> updateRecord api st1 zone recordId r
                      | None \<Rightarrow> createNewRecord api st1 zone r) of
                  (sent2, Inl msg) \<Rightarrow> (sent0 @ sent1 @ sent2, cloudflareError msg, st1)
                | (sent2, Inr res) \<Rightarrow> (sent0 @ sent1 @ sent2, res, st1))))"

subsection \<open>NetlifyDNSProvider.createRecord\<close>

text \<open>
  The requests of the Netlify provider: \<^verbatim>\<open>GET\<close> and \<^verbatim>\<open>POST\<close> on \<^verbatim>\<open>/dns_zones\<close>, and
  \<^verbatim>\<open>GET\<close>, \<^verbatim>\<open>POST\<close> and \<^verbatim>\<open>PUT\<close> on \<^verbatim>\<open>/dns_zones/{zone}/dns_records\<close>.
\<close>

datatype nf_request =
  NfGetZones
  | NfPostZone string
  | NfGetRecords string
  | NfPostRecord string string string nat
  | NfPutRecord string string string nat

text \<open>
  The replies of the Netlify API: the zones by name and id; the id of a zone created;
  the records of a zone by hostname, type and id; for a record created the status with
  \<^verbatim>\<open>data.id\<close> and \<^verbatim>\<open>data.error_message\<close>; for a record updated the status with
  \<^verbatim>\<open>data.error_message\<close>. \<open>None\<close> stands for a body that is \<^verbatim>\<open>null\<close>.
\<close>

record netlify_api =
  nfZones :: "creds \<Rightarrow> (string \<times> string) list option awaited"
  nfPostZone :: "creds \<Rightarrow> string \<Rightarrow> string option awaited"
  nfRecords :: "creds \<Rightarrow> string \<Rightarrow> (string \<times> string \<times> string) list option awaited"
  nfPostRecord ::
    "creds \<Rightarrow> string \<Rightarrow> record_input \<Rightarrow> (nat \<times> (string option \<times> string option) option) awaited"
  nfPutRecord ::
    "creds \<Rightarrow> string \<Rightarrow> string \<Rightarrow> record_input \<Rightarrow> (nat \<times> string option option) awaited"

record nf_state =
  nf_credentials :: "creds option"
  nf_dnsZoneId :: "string option"

text \<open>
  The \<^verbatim>\<open>try\<close> block of \<^verbatim>\<open>ensureDNSZone\<close>: the zone of that name is looked up and, when
  there is none, created; \<^verbatim>\<open>this.dnsZoneId\<close> is set on the way.
\<close>

definition ensureDNSZoneTry ::
  "netlify_api \<Rightarrow> nf_state \<Rightarrow> string \<Rightarrow> nf_request list \<times> (string + nf_state)" where
  "ensureDNSZoneTry api st domain =
     (case nf_credentials st of
        None \<Rightarrow> ([], Inl nullData)
      | Some c \<Rightarrow>
          (case nfZones api c of
             Rejected msg \<Rightarrow> ([NfGetZones], Inl msg)
           | Fulfilled None \<Rightarrow> ([NfGetZones], Inl nullData)
           | Fulfilled (Some zones) \<Rightarrow>
               (case find (\<lambda>zone. fst zone = domain) zones of
                  Some existingZone \<Rightarrow>
                    ([NfGetZones], Inr (st\<lparr> nf_dnsZoneId := Some (snd existingZone) \<rparr>))
                | None \<Rightarrow>
                    (case nfPostZone api c domain of
                       Rejected msg \<Rightarrow> ([NfGetZones, NfPostZone domain], Inl msg)
                     | Fulfilled None \<Rightarrow> ([NfGetZones, NfPostZone domain], Inl nullData)
                     | Fulfilled (Some z) \<Rightarrow>
                         ([NfGetZones, NfPostZone domain],
                          Inr (st\<lparr> nf_dnsZoneId := Some z \<rparr>))))))"

text \<open>\<^verbatim>\<open>ensureDNSZone\<close>: its \<^verbatim>\<open>catch\<close> throws the error again under a new message.\<close>

definition ensureDNSZone ::
  "netlify_api \<Rightarrow> nf_state \<Rightarrow> string \<Rightarrow> nf_request list \<times> (string + nf_state)" where
  "ensureDNSZone api st domain =
     (case ensureDNSZoneTry api st domain of
        (sent, Inl msg) \<Rightarrow> (sent, Inl (''Failed to create/find DNS zone: '' @ msg))
      | (sent, Inr st') \<Rightarrow> (sent, Inr st'))"

text \<open>
  \<^verbatim>\<open>findExistingRecord\<close> of the Netlify provider: \<^verbatim>\<open>null\<close> without a zone id, else the
  id of the first CNAME record with that hostname, if any.
\<close>

definition netlifyFindExistingRecord ::
  "netlify_api \<Rightarrow> nf_state \<Rightarrow> string \<Rightarrow> nf_request list \<times> (string + string option)" where
  "netlifyFindExistingRecord api st subdomain =
     (let lookup = (\<lambda>zone.
        case nf_credentials st of
          None \<Rightarrow> ([], Inl nullData)
        | Some c \<Rightarrow>
            ([NfGetRecords zone],
             case nfRecords api c zone of
               Rejected msg \<Rightarrow> Inl msg
             | Fulfilled None \<Rightarrow> Inl nullData
             | Fulfilled (Some records) \<Rightarrow>
                 Inr (map_option (\<lambda>r. snd (snd r))
                        (find (\<lambda>r. fst r = subdomain \<and> fst (snd r) = ''CNAME'') records))))
      in case nf_dnsZoneId st of
           None \<Rightarrow> ([], Inr None)
         | Some zone \<Rightarrow> if zone = [] then ([], Inr None) else lookup zone)"

text \<open>\<^verbatim>\<open>this.dnsZoneId\<close> as it appears in the address of a request.\<close>

definition zoneText :: "nf_state \<Rightarrow> string" where
  "zoneText st = (case nf_dnsZoneId st of None \<Rightarrow> ''null'' | Some zone \<Rightarrow> zone)"

definition netlifyCreateNewRecord ::
  "netlify_api \<Rightarrow> nf_state \<Rightarrow> record_input \<Rightarrow> nf_request list \<times> (string + create_result)" where
  "netlifyCreateNewRecord api st r =
     (case nf_credentials st of
        None \<Rightarrow> ([], Inl nullData)
      | Some c \<Rightarrow>
          ([NfPostRecord (zoneText st) (ri_subdomain r) (ri_target r) (ri_ttl r)],
           case nfPostRecord api c (zoneText st) r of
             Rejected msg \<Rightarrow> Inl msg
           | Fulfilled (code, None) \<Rightarrow> Inl nullData
           | Fulfilled (code, Some (newId, error_message)) \<Rightarrow>
               Inr \<lparr> cr_success = (code = 201), cr_recordId = newId,
                     cr_error = error_message \<rparr>))"

definition netlifyUpdateRecord ::
  "netlify_api \<Rightarrow> nf_state \<Rightarrow> string \<Rightarrow> record_input
     \<Rightarrow> nf_request list \<times> (string + create_result)" where
  "netlifyUpdateRecord api st recordId r =
     (case nf_credentials st of
        None \<Rightarrow> ([], Inl nullData)
      | Some c \<Rightarrow>
          ([NfPutRecord (zoneText st) recordId (ri_target r) (ri_ttl r)],
           case nfPutRecord api c (zoneText st) recordId r of
             Rejected msg \<Rightarrow> Inl msg
           | Fulfilled (code, None) \<Rightarrow> Inl nullData
           | Fulfilled (code, Some error_message) \<Rightarrow>
               Inr \<lparr> cr_success = (code = 200), cr_recordId = Some recordId,
                     cr_error = error_message \<rparr>))"

definition netlifyError :: "string \<Rightarrow> create_result" where
  "netlifyError msg =
     \<lparr> cr_success = False, cr_recordId = None,
       cr_error = Some (''Netlify DNS error: '' @ msg) \<rparr>"

text \<open>
  \<^verbatim>\<open>createRecord\<close> of the Netlify provider: zone, lookup, then update of the record
  found or creation of a new one, with every error caught and turned into a result.
\<close>

definition netlifyCreateRecord ::
  "netlify_api \<Rightarrow> nf_state \<Rightarrow> record_input \<Rightarrow> nf_request list \<times> create_result \<times> nf_state" where
  "netlifyCreateRecord api st r =
     (case ensureDNSZone api st (ri_domain r) of
        (sent0, Inl msg) \<Rightarrow> (sent0, netlifyError msg, st)
      | (sent0, Inr st1) \<Rightarrow>
          (case netlifyFindExistingRecord api st1 (ri_subdomain r) of
             (sent1, Inl msg) \<Rightarrow> (sent0 @ sent1, netlifyError msg, st1)
           | (sent1, Inr existingRecord) \<Rightarrow>
               (case (case existingRecord of
                        Some recordId \<Rightarrow> netlifyUpdateRecord api st1 recordId r
                      | None \<Rightarrow> netlifyCreateNewRecord api st1 r) of
                  (sent2, Inl msg) \<Rightarrow> (sent0 @ sent1 @ sent2, netlifyError msg, st1)
                | (sent2, Inr res) \<Rightarrow> (sent0 @ sent1 @ sent2, res, st1))))"

text \<open>
  The record of the deployment, sample Porkbun credentials, and a registrar that
  answers every create request with success and the id of a new record.
\<close>

definition foggRecord :: record_input where
  "foggRecord = \<lparr> ri_domain = ''candlefish.ai'', ri_subdomain = ''fogg'',
                  ri_target = ''fogg-calendar.netlify.app'', ri_ttl = 300 \<rparr>"

definition porkbunKeys :: creds where
  "porkbunKeys = [(''apiKey'', ''pk1_abc''), (''secretKey'', ''sk1_def'')]"

definition registrar :: "creds \<Rightarrow> record_input \<Rightarrow> porkbun_data option axios" where
  "registrar c r = Replied (Some \<lparr> pb_status = Some ''SUCCESS'', pb_id = Some ''1002'',
                                   pb_message = None \<rparr>)"

section \<open>dns-management-system.js: DNSManager\<close>

text \<open>
  The object that \<^verbatim>\<open>configureDNS\<close> and the backup strategies return, with the fields
  that carry a status, a provider, a method or an address (\<open>out_proxyTarget\<close> is
  \<^verbatim>\<open>config.target\<close> of the proxy result).
\<close>

record dns_outcome =
  out_success :: bool
  out_provider :: "string option"
  out_method :: "string option"
  out_url :: "string option"
  out_proxyTarget :: "string option"
  out_temporaryUrl :: "string option"
  out_error :: "string option"

definition emptyOutcome :: dns_outcome where
  "emptyOutcome = \<lparr> out_success = False, out_provider = None, out_method = None,
                     out_url = None, out_proxyTarget = None, out_temporaryUrl = None,
                     out_error = None \<rparr>"

text \<open>
  One provider as the manager meets it during a run: its name, what its
  \<^verbatim>\<open>healthCheck()\<close> gives (an object, or an error thrown), what its
  \<^verbatim>\<open>createRecord\<close> gives for each input, and the \<^verbatim>\<open>success\<close> of
  \<^verbatim>\<open>verifyDNSPropagation\<close> after this provider has created the record.
\<close>

record provider_run =
  pr_name :: string
  pr_healthCheck :: "health awaited"
  pr_createRecord :: "record_input \<Rightarrow> create_result awaited"
  pr_propagated :: bool

text \<open>
  A run of the manager: its providers in order, and the outcomes of the file-system
  calls of \<^verbatim>\<open>logFailure\<close>, \<^verbatim>\<open>useNetlifyRedirect\<close> and
  \<^verbatim>\<open>notifyUserWithInstructions\<close>.
\<close>

record manager_env =
  providers :: "provider_run list"
  failureLogged :: "unit awaited"
  redirectsWritten :: "unit awaited"
  instructionsWritten :: "unit awaited"

definition managerConfig :: record_input where
  "managerConfig = \<lparr> ri_domain = ''candlefish.ai'', ri_subdomain = ''fogg'',
                     ri_target = ''fogg-calendar.netlify.app'', ri_ttl = 300 \<rparr>"

text \<open>
  The \<^verbatim>\<open>try\<close> block of \<^verbatim>\<open>attemptProvider\<close>: \<open>Inl\<close> is the message of the error thrown.
\<close>

definition attemptProviderTry :: "provider_run \<Rightarrow> string + bool" where
  "attemptProviderTry pr =
     (case pr_healthCheck pr of
        Rejected msg \<Rightarrow> Inl msg
      | Fulfilled h \<Rightarrow>
          if \<not> hc_healthy h
          then Inl (''Provider health check failed: '' @
                    (case hc_error h of Some e \<Rightarrow> e | None \<Rightarrow> ''undefined''))
          else
            (case pr_createRecord pr managerConfig of
               Rejected msg \<Rightarrow> Inl msg
             | Fulfilled rec \<Rightarrow>
                 if \<not> cr_success rec
                 then Inl (case cr_error rec of
                             Some e \<Rightarrow> if e = [] then ''Failed to create DNS record'' else e
                           | None \<Rightarrow> ''Failed to create DNS record'')
                 else Inr (pr_propagated pr)))"

text \<open>\<^verbatim>\<open>attemptProvider\<close>: its \<^verbatim>\<open>catch\<close> logs the error and returns \<^verbatim>\<open>false\<close>.\<close>

definition attemptProvider :: "provider_run \<Rightarrow> string + bool" where
  "attemptProvider pr =
     (case attemptProviderTry pr of Inl msg \<Rightarrow> Inr False | Inr ok \<Rightarrow> Inr ok)"

subsection \<open>Backup strategies\<close>

definition useNetlifyRedirect :: "manager_env \<Rightarrow> string + dns_outcome" where
  "useNetlifyRedirect env =
     (case redirectsWritten env of
        Fulfilled u \<Rightarrow>
          Inr (emptyOutcome\<lparr> out_success := True, out_method := Some ''netlify_redirect'',
                              out_url := Some ''https://candlefish.ai/fogg'' \<rparr>)
      | Rejected msg \<Rightarrow> Inr (emptyOutcome\<lparr> out_error := Some msg \<rparr>))"

text \<open>
  The loop of \<^verbatim>\<open>createAlternativeSubdomain\<close> over the alternative names, with the
  first provider of the manager (\<open>None\<close> when the manager has no provider, and then
  every round throws and is skipped).
\<close>

fun tryAlternatives :: "provider_run option \<Rightarrow> string list \<Rightarrow> dns_outcome" where
  "tryAlternatives provider [] =
     emptyOutcome\<lparr> out_error := Some ''No alternative subdomains available'' \<rparr>"
| "tryAlternatives provider (alt # alts) =
     (case provider of
        None \<Rightarrow> tryAlternatives provider alts
      | Some pr \<Rightarrow>
          (case pr_createRecord pr (managerConfig\<lparr> ri_subdomain := alt \<rparr>) of
             Rejected msg \<Rightarrow> tryAlternatives provider alts
           | Fulfilled res \<Rightarrow>
               if cr_success res
               then emptyOutcome\<lparr> out_success := True,
                                   out_method := Some ''alternative_subdomain'',
                                   out_url := Some (''https://'' @ alt @ ''.'' @
                                                    ri_domain managerConfig) \<rparr>
               else tryAlternatives provider alts))"

definition createAlternativeSubdomain :: "manager_env \<Rightarrow> string + dns_outcome" where
  "createAlternativeSubdomain env =
     Inr (tryAlternatives (case providers env of [] \<Rightarrow> None | pr # rest \<Rightarrow> Some pr)
            [''fogg-cal'', ''fogg-dashboard'', ''calendar-fogg''])"

definition setupProxyServer :: "string + dns_outcome" where
  "setupProxyServer =
     Inr (emptyOutcome\<lparr> out_success := True, out_method := Some ''proxy_server'',
                         out_proxyTarget := Some ''https://fogg-calendar.netlify.app'' \<rparr>)"

definition notifyUserWithInstructions :: "manager_env \<Rightarrow> string + dns_outcome" where
  "notifyUserWithInstructions env =
     (case instructionsWritten env of
        Rejected msg \<Rightarrow> Inl msg
      | Fulfilled u \<Rightarrow>
          Inr (emptyOutcome\<lparr> out_success := True, out_method := Some ''user_instructions'',
                              out_temporaryUrl := Some ''https://fogg-calendar.netlify.app'' \<rparr>))"

text \<open>
  The loop of \<^verbatim>\<open>implementBackupStrategy\<close>: the result of the first strategy that
  returns with \<^verbatim>\<open>success\<close>; a strategy that throws or fails is skipped.
\<close>

fun firstSuccessful :: "(string + dns_outcome) list \<Rightarrow> dns_outcome" where
  "firstSuccessful [] = emptyOutcome\<lparr> out_error := Some ''All backup strategies failed'' \<rparr>"
| "firstSuccessful (Inl msg # strategies) = firstSuccessful strategies"
| "firstSuccessful (Inr res # strategies) =
     (if out_success res then res else firstSuccessful strategies)"

definition implementBackupStrategy :: "manager_env \<Rightarrow> string + dns_outcome" where
  "implementBackupStrategy env =
     Inr (firstSuccessful
            [useNetlifyRedirect env, createAlternativeSubdomain env, setupProxyServer,
             notifyUserWithInstructions env])"

subsection \<open>configureDNS\<close>

text \<open>
  The loop of \<^verbatim>\<open>configureDNS\<close> over the providers that are left. An error thrown by
  \<^verbatim>\<open>attemptProvider\<close> is logged to a file, and an error of that logging leaves
  \<^verbatim>\<open>configureDNS\<close>.
\<close>

fun configureLoop :: "manager_env \<Rightarrow> provider_run list \<Rightarrow> string + dns_outcome" where
  "configureLoop env [] = implementBackupStrategy env"
| "configureLoop env (pr # rest) =
     (case attemptProvider pr of
        Inr ok \<Rightarrow>
          if ok
          then Inr (emptyOutcome\<lparr> out_success := True, out_provider := Some (pr_name pr) \<rparr>)
          else configureLoop env rest
      | Inl msg \<Rightarrow>
          (case failureLogged env of
             Rejected e \<Rightarrow> Inl e
           | Fulfilled u \<Rightarrow> configureLoop env rest))"

definition configureDNS :: "manager_env \<Rightarrow> string + dns_outcome" where
  "configureDNS env = configureLoop env (providers env)"

text \<open>Every provider's health check reports it unavailable, or throws.\<close>

definition unavailable :: "provider_run \<Rightarrow> bool" where
  "unavailable pr = (case pr_healthCheck pr of Fulfilled h \<Rightarrow> \<not> hc_healthy h
                       | Rejected msg \<Rightarrow> True)"

text \<open>
  The manager's three providers on a machine with bad credentials: the health check of
  Porkbun fails, the two placeholder providers are not implemented, and no provider
  creates a record. The file system is writable.
\<close>

definition badCredentialsRun :: manager_env where
  "badCredentialsRun =
     \<lparr> providers =
         [\<lparr> pr_name = ''Porkbun'',
            pr_healthCheck = Fulfilled \<lparr> hc_healthy = False,
              hc_error = Some ''API unreachable: Request failed with status code 403'' \<rparr>,
            pr_createRecord = (\<lambda>r. Fulfilled \<lparr> cr_success = False, cr_recordId = None,
              cr_error = Some ''Porkbun API error: Request failed with status code 403'' \<rparr>),
            pr_propagated = False \<rparr>,
          \<lparr> pr_name = ''Cloudflare'',
            pr_healthCheck = Fulfilled \<lparr> hc_healthy = False,
              hc_error = Some ''Not implemented yet'' \<rparr>,
            pr_createRecord = (\<lambda>r. Fulfilled \<lparr> cr_success = False, cr_recordId = None,
              cr_error = Some ''Not implemented yet'' \<rparr>),
            pr_propagated = False \<rparr>,
          \<lparr> pr_name = ''Netlify DNS'',
            pr_healthCheck = Fulfilled \<lparr> hc_healthy = False,
              hc_error = Some ''Not implemented yet'' \<rparr>,
            pr_createRecord = (\<lambda>r. Fulfilled \<lparr> cr_success = False, cr_recordId = None,
              cr_error = Some ''Not implemented yet'' \<rparr>),
            pr_propagated = False \<rparr>],
       failureLogged = Fulfilled (),
       redirectsWritten = Fulfilled (),
       instructionsWritten = Fulfilled () \<rparr>"

text \<open>
  The manager's Porkbun provider as a run of the model of \<^verbatim>\<open>PorkbunProvider\<close>: the
  object is created with \<^verbatim>\<open>credentials\<close> \<^verbatim>\<open>null\<close>, the manager calls its
  \<^verbatim>\<open>healthCheck\<close> once, and every \<^verbatim>\<open>createRecord\<close> comes after that call. The two
  other providers of the manager are the placeholder classes of the same file.
\<close>

definition porkbunRun ::
  "system \<Rightarrow> network \<Rightarrow> (creds \<Rightarrow> record_input \<Rightarrow> porkbun_data option axios) \<Rightarrow> bool
     \<Rightarrow> provider_run" where
  "porkbunRun sys net post propagated =
     \<lparr> pr_name = ''Porkbun'',
       pr_healthCheck = (case healthCheck Porkbun sys net of
                           Inl msg \<Rightarrow> Rejected msg
                         | Inr h \<Rightarrow> Fulfilled h),
       pr_createRecord =
         (\<lambda>r. Fulfilled (snd (porkbunCreateRecord post (credentialsAfter Porkbun sys None) r))),
       pr_propagated = propagated \<rparr>"

definition placeholderRun :: "string \<Rightarrow> provider_run" where
  "placeholderRun name =
     \<lparr> pr_name = name,
       pr_healthCheck = (case stubHealthCheck of
                           Inl msg \<Rightarrow> Rejected msg
                         | Inr h \<Rightarrow> Fulfilled h),
       pr_createRecord = (\<lambda>r. Fulfilled \<lparr> cr_success = False, cr_recordId = None,
                                           cr_error = Some ''Not implemented yet'' \<rparr>),
       pr_propagated = False \<rparr>"

text \<open>The manager on a machine without any credentials, with a writable file system.\<close>

definition noCredentialsRun :: manager_env where
  "noCredentialsRun =
     \<lparr> providers = [porkbunRun bareSystem liveNetwork registrar True,
                    placeholderRun ''Cloudflare'', placeholderRun ''Netlify DNS''],
       failureLogged = Fulfilled (),
       redirectsWritten = Fulfilled (),
       instructionsWritten = Fulfilled () \<rparr>"

text \<open>The credentials file of \<open>p\<close>, when it holds an object, holds a complete credential set.\<close>

definition fileComplete :: "provider_kind \<Rightarrow> system \<Rightarrow> bool" where
  "fileComplete p sys = (case loadFromFile p sys of None \<Rightarrow> True | Some c \<Rightarrow> complete p c)"

section \<open>DNSFailoverSystem: the health state of an endpoint\<close>









section \<open>Properties\<close>

subsection \<open>Bounded histories\<close>

lemma slice_last_suffix: "suffix (slice_last n xs) xs"
  by (simp add: slice_last_def suffix_drop)

lemma slice_last_length: "length (slice_last n xs) = min n (length xs)"
  by (simp add: slice_last_def)

lemma keepRecentChecks_eq: "keepRecentChecks xs = slice_last 100 xs"
  by (simp add: keepRecentChecks_def slice_last_def)

lemma logCheck_eq: "logCheck xs x = slice_last 100 (xs @ [x])"
  by (simp add: logCheck_def slice_last_def Let_def)

lemma slice_last_snoc:
  "0 < n \<Longrightarrow> slice_last n (slice_last n xs @ [x]) = slice_last n (xs @ [x])"
proof (cases "n \<le> length xs")
  case True
  assume "0 < n"
  with True have a: "Suc (length xs) - n = Suc (length xs - n)"
    and b: "length xs - (length xs - n) = n"
    by arith+
  show ?thesis
    using True \<open>0 < n\<close> by (simp add: slice_last_def a b)
next
  case False
  then show ?thesis by (simp add: slice_last_def)
qed

lemma js_round_of_int: "js_round (of_int k) = k"
  unfolding js_round_def by (rule floor_unique) simp_all

lemma foldl_storeResults: "foldl storeResults [] rs = slice_last 100 rs"
proof (induction rs rule: rev_induct)
  case Nil
  show ?case by (simp add: slice_last_def)
next
  case (snoc r rs)
  then show ?case
    by (simp add: storeResults_def keepRecentChecks_eq slice_last_snoc)
qed

lemma foldl_logCheck: "foldl logCheck [] rs = slice_last 100 rs"
proof (induction rs rule: rev_induct)
  case Nil
  show ?case by (simp add: slice_last_def)
next
  case (snoc r rs)
  then show ?case
    by (simp add: logCheck_eq slice_last_snoc)
qed

text \<open>
  C8. Storing a check appends it at the end and then only drops entries from the front:
  the new history is the last 100 entries of the old history followed by the new
  entry, so it is a suffix of that list (nothing reordered or changed), it ends with
  the new entry, and it never has more than 100 entries. Over a whole run that starts
  with the empty history, the history is the last 100 of all checks made so far. This
  holds for \<^verbatim>\<open>DNSMonitor\<close> (push and \<^verbatim>\<open>keepRecentChecks\<close>) and for
  \<^verbatim>\<open>DNSMonitoring.logCheck\<close>.
\<close>

theorem C8_history_append_only_bounded:
  "suffix (storeResults hist r) (hist @ [r])
   \<and> storeResults hist r = slice_last 100 (hist @ [r])
   \<and> last (storeResults hist r) = r
   \<and> length (storeResults hist r) \<le> 100
   \<and> foldl storeResults [] rs = slice_last 100 rs
   \<and> suffix (logCheck hist r) (hist @ [r])
   \<and> logCheck hist r = slice_last 100 (hist @ [r])
   \<and> last (logCheck hist r) = r
   \<and> length (logCheck hist r) \<le> 100
   \<and> foldl logCheck [] rs = slice_last 100 rs"
proof -
  have s: "storeResults hist r = slice_last 100 (hist @ [r])"
    by (simp add: storeResults_def keepRecentChecks_eq)
  have l: "logCheck hist r = slice_last 100 (hist @ [r])"
    by (rule logCheck_eq)
  have la: "last (slice_last 100 (hist @ [r])) = r"
    by (simp add: slice_last_def)
  have su: "suffix (slice_last 100 (hist @ [r])) (hist @ [r])"
    by (rule slice_last_suffix)
  have le: "length (slice_last 100 (hist @ [r])) \<le> 100"
    by (simp add: slice_last_length)
  show ?thesis
    unfolding s l using su la le foldl_storeResults foldl_logCheck by blast
qed

subsection \<open>Overall health of the monitor\<close>

lemma scores_sum:
  "foldl (+) 0 (scores r) =
     count_true [dns_success r, http_success r, ssl_success r, propagation_success r]"
  by (simp add: scores_def count_true_def)

text \<open>
  C10. \<^verbatim>\<open>calculateOverallHealth\<close> reports healthy exactly when at least 3 of the 4
  dimensions (DNS resolution, HTTP access, SSL certificate, DNS propagation) succeed;
  the score is the number of dimensions that succeed, out of 4, and the percentage is
  \<^verbatim>\<open>Math.round(score / 4 * 100)\<close>, which is 25 times the score.
\<close>

theorem C10_overall_health_three_of_four:
  "healthy (calculateOverallHealth r) =
     (3 \<le> count_true [dns_success r, http_success r, ssl_success r, propagation_success r])
   \<and> healthy (calculateOverallHealth r) =
     (rat_of_nat (score (calculateOverallHealth r)) \<ge> 75 / 100 * 4)
   \<and> score (calculateOverallHealth r) =
     count_true [dns_success r, http_success r, ssl_success r, propagation_success r]
   \<and> maxScore (calculateOverallHealth r) = 4
   \<and> percentage (calculateOverallHealth r) =
     js_round (rat_of_nat (score (calculateOverallHealth r)) / 4 * 100)
   \<and> percentage (calculateOverallHealth r) = 25 * int (score (calculateOverallHealth r))"
proof -
  define n where
    "n = count_true [dns_success r, http_success r, ssl_success r, propagation_success r]"
  have le: "n \<le> 4"
    by (simp add: n_def count_true_def)
  have sc: "foldl (+) 0 (scores r) = n"
    by (simp add: scores_sum n_def)
  have len: "length (scores r) = 4"
    by (simp add: scores_def)
  have cases: "n = 0 \<or> n = 1 \<or> n = 2 \<or> n = 3 \<or> n = 4"
    using le by arith
  have h: "(rat_of_nat n \<ge> 4 * (3 / 4)) = (3 \<le> n)"
    using cases by auto
  have "rat_of_nat n / 4 * 100 = of_int (25 * int n)"
    by simp
  then have p: "js_round (rat_of_nat n / 4 * 100) = 25 * int n"
    by (simp only: js_round_of_int)
  have "healthy (calculateOverallHealth r) = (3 \<le> n)
      \<and> score (calculateOverallHealth r) = n
      \<and> maxScore (calculateOverallHealth r) = 4
      \<and> percentage (calculateOverallHealth r) = 25 * int n"
    using h p by (simp add: calculateOverallHealth_def Let_def sc len)
  then show ?thesis
    using h p by (simp add: n_def [symmetric])
qed

subsection \<open>Overall success of a verification check\<close>

lemma ratioAtLeastHalf_iff: "0 < t \<Longrightarrow> ratioAtLeastHalf s t = (t \<le> 2 * s)"
proof -
  assume t: "0 < t"
  have "(rat_of_nat s / rat_of_nat t \<ge> 1 / 2) = (rat_of_nat t \<le> 2 * rat_of_nat s)"
    using t by (simp add: field_simps)
  also have "\<dots> = (t \<le> 2 * s)"
    by (metis of_nat_le_iff of_nat_mult of_nat_numeral)
  finally show ?thesis
    using t by (simp add: ratioAtLeastHalf_def)
qed

lemma checkDNSServers_counts:
  "totalCount (checkDNSServers target p) = 8
   \<and> successCount (checkDNSServers target p) =
       length (filter (\<lambda>(name, address). dns_ok (dnsResult target (resolveVia p address)))
                 dnsServers)"
  by (simp add: checkDNSServers_def Let_def dnsServers_def)

lemma checkOnlineServices_count:
  "(successCount (checkOnlineServices target p) > 0) =
     list_ex (\<lambda>name. online_ok (onlineResult target (fetchOnline p name))) onlineCheckers"
  by (simp add: checkOnlineServices_def Let_def onlineCheckers_def)

text \<open>
  C1. For the check that \<^verbatim>\<open>performComprehensiveCheck\<close> builds from any probe outcomes,
  \<^verbatim>\<open>overall.success\<close> is true exactly when at least 3 of these 5 hold: the local
  resolver returned the target; at least half of the 8 polled DNS servers returned
  the target; at least one online service reported the target; the HTTP status is in
  200..399; the certificate is present and not expired.
\<close>

theorem C1_overall_success_three_of_five:
  "success (overall (performComprehensiveCheck target p)) =
     (3 \<le> count_true
        [dns_ok (dnsResult target (resolveLocal p)),
         length dnsServers \<le>
           2 * length (filter (\<lambda>(name, address). dns_ok (dnsResult target (resolveVia p address)))
                         dnsServers),
         list_ex (\<lambda>name. online_ok (onlineResult target (fetchOnline p name))) onlineCheckers,
         http_ok (checkHTTPAccess p),
         ssl_ok (checkSSLCertificate p)])"
proof -
  have len: "length dnsServers = 8"
    by (simp add: dnsServers_def)
  have q: "ratioAtLeastHalf (successCount (checkDNSServers target p))
             (totalCount (checkDNSServers target p)) =
           (length dnsServers \<le>
             2 * length (filter (\<lambda>(name, address). dns_ok (dnsResult target (resolveVia p address)))
                           dnsServers))"
    using checkDNSServers_counts [of target p]
    by (simp add: ratioAtLeastHalf_iff len)
  show ?thesis
    by (simp add: performComprehensiveCheck_def calculateOverallSuccess_def Let_def
        check_parts.defs check.defs q checkOnlineServices_count checkLocalDNS_def)
qed

subsection \<open>The polling loop of verify\<close>

text \<open>
  When the first tick already finds the timeout elapsed, \<^verbatim>\<open>lastCheck\<close> is still
  \<^verbatim>\<open>null\<close> (the initial check is never stored in it) and the report cannot be built.
\<close>

lemma verify_timeout_at_first_tick:
  assumes "\<not> success (overall (performComprehensiveCheck (cfg_target cfg) (initialProbes env)))"
    and "cfg_timeout cfg \<le> int (initialDuration env) + timerDelay (cfg_checkInterval cfg)"
  shows "verify cfg env = Inl (TypeError ''Cannot read properties of null'')"
proof -
  have "\<not> elapsedAtTick cfg env 0 < cfg_timeout cfg"
    using assms(2) by simp
  then have "verifyLoop cfg env 0 [] = resolveAtTick env (elapsedAtTick cfg env 0) []"
    by (subst verifyLoop.simps) simp
  also have "\<dots> = Inl (TypeError ''Cannot read properties of null'')"
    by (simp add: resolveAtTick_def succeededAt_def finishedAt_def generateFinalReport_def
        generateRecommendations_def)
  finally show ?thesis
    using assms(1) by (simp add: verify_def Let_def)
qed

lemma nothingResolves_fails:
  "\<not> success (overall (performComprehensiveCheck t nothingResolves))"
  by (simp add: performComprehensiveCheck_def calculateOverallSuccess_def Let_def
      check_parts.defs check.defs nothingResolves_def checkLocalDNS_def checkDNSServers_def
      checkOnlineServices_def checkHTTPAccess_def checkSSLCertificate_def dnsResult_def
      onlineResult_def dnsServers_def onlineCheckers_def count_true_def ratioAtLeastHalf_def)

lemma succeededAt_none:
  "\<forall>a \<in> set started. \<not> success (overall (snd (snd a))) \<Longrightarrow> succeededAt now started = None"
proof -
  assume a: "\<forall>a \<in> set started. \<not> success (overall (snd (snd a)))"
  then have "filter (\<lambda>a. success (overall (snd (snd a)))) (finishedAt now started) = []"
    by (auto simp: finishedAt_def filter_empty_conv)
  then show ?thesis
    by (simp add: succeededAt_def)
qed

lemma timeout_report_or_null:
  "generateFinalReport (Fulfilled ()) n lastCheck ''timeout''
     = Inl (TypeError ''Cannot read properties of null'')
   \<or> (\<exists>r. generateFinalReport (Fulfilled ()) n lastCheck ''timeout'' = Inr r
          \<and> summary_status r = ''timeout''
          \<and> nextSteps r = generateNextSteps None ''timeout'')"
  by (cases lastCheck)
    (simp_all add: generateFinalReport_def generateRecommendations_def Let_def
      generateNextSteps_def)

text \<open>
  The loop always ends. When no check succeeds and the report file can be written, it
  ends either with the report of status \<^verbatim>\<open>timeout\<close> and the next steps of that
  status, or, if no check has finished before the tick that finds the timeout
  elapsed, with the TypeError of the read on \<^verbatim>\<open>null\<close>.
\<close>

lemma verifyLoop_without_success:
  assumes "\<And>j. \<not> success (overall (performComprehensiveCheck (cfg_target cfg) (tickProbes env j)))"
    and "reportWritten env = Fulfilled ()"
    and "\<forall>a \<in> set started. \<not> success (overall (snd (snd a)))"
  shows "verifyLoop cfg env k started = Inl (TypeError ''Cannot read properties of null'')
         \<or> (\<exists>r. verifyLoop cfg env k started = Inr r \<and> summary_status r = ''timeout''
                \<and> nextSteps r = generateNextSteps None ''timeout'')"
  using assms
proof (induction cfg env k started rule: verifyLoop.induct)
  case (1 cfg env k started)
  have none: "succeededAt (elapsedAtTick cfg env k) started = None"
    using "1.prems"(3) by (rule succeededAt_none)
  show ?case
  proof (cases "elapsedAtTick cfg env k < cfg_timeout cfg")
    case True
    let ?started = "started @
        [(elapsedAtTick cfg env k + int (checkDuration env k), k,
          performComprehensiveCheck (cfg_target cfg) (tickProbes env k))]"
    have "\<forall>a \<in> set ?started. \<not> success (overall (snd (snd a)))"
      using "1.prems"(1,3) by auto
    then have "verifyLoop cfg env (Suc k) ?started
          = Inl (TypeError ''Cannot read properties of null'')
        \<or> (\<exists>r. verifyLoop cfg env (Suc k) ?started = Inr r \<and> summary_status r = ''timeout''
               \<and> nextSteps r = generateNextSteps None ''timeout'')"
      using "1.IH" none True "1.prems"(1,2) by blast
    moreover have "verifyLoop cfg env k started = verifyLoop cfg env (Suc k) ?started"
      using none True by (subst verifyLoop.simps) simp
    ultimately show ?thesis by simp
  next
    case False
    have "verifyLoop cfg env k started = resolveAtTick env (elapsedAtTick cfg env k) started"
      using False by (subst verifyLoop.simps) simp
    then show ?thesis
      using none "1.prems"(2) timeout_report_or_null
      by (simp add: resolveAtTick_def)
  qed
qed

text \<open>
  With a timeout of 650 ms, an interval of 200 ms and an initial check of 301 ms, the
  tick at 501 ms starts a check that takes 250 ms; the tick at 701 ms finds the
  timeout elapsed while that check is still under way, \<^verbatim>\<open>lastCheck\<close> is \<^verbatim>\<open>null\<close>,
  and the promise is rejected.
\<close>

lemma verify_overlapping_check_rejects:
  "verify overlapConfig overlapRun = Inl (TypeError ''Cannot read properties of null'')"
proof -
  let ?c = "performComprehensiveCheck (cfg_target overlapConfig) (tickProbes overlapRun 0)"
  have t0: "elapsedAtTick overlapConfig overlapRun 0 = 501"
    by (simp add: overlapConfig_def overlapRun_def timerDelay_def)
  have t1: "elapsedAtTick overlapConfig overlapRun (Suc 0) = 701"
    by (simp add: overlapConfig_def overlapRun_def timerDelay_def)
  have d: "checkDuration overlapRun 0 = 250" and to: "cfg_timeout overlapConfig = 650"
    and w: "reportWritten overlapRun = Fulfilled ()"
    by (simp_all add: overlapConfig_def overlapRun_def)
  have "verifyLoop overlapConfig overlapRun 0 []
      = verifyLoop overlapConfig overlapRun (Suc 0) [(751, 0, ?c)]"
    by (subst verifyLoop.simps)
      (simp del: elapsedAtTick.simps add: t0 d to succeededAt_def finishedAt_def)
  also have "\<dots> = resolveAtTick overlapRun 701 [(751, 0, ?c)]"
    by (subst verifyLoop.simps) (simp del: elapsedAtTick.simps add: t1 to)
  also have "\<dots> = Inl (TypeError ''Cannot read properties of null'')"
    by (simp add: resolveAtTick_def succeededAt_def finishedAt_def w generateFinalReport_def
        generateRecommendations_def)
  finally show ?thesis
    by (simp add: verify_def Let_def overlapRun_def nothingResolves_fails)
qed

text \<open>
  C6. With a timeout of 5000 ms and the default check interval of 10000 ms, in a run where
  nothing resolves, the first tick of the interval timer fires after the timeout has
  elapsed. \<^verbatim>\<open>verify\<close> then calls \<^verbatim>\<open>generateFinalReport(null, startTime, 'timeout')\<close>,
  \<^verbatim>\<open>generateRecommendations\<close> reads \<^verbatim>\<open>check.local\<close> on \<^verbatim>\<open>null\<close>, and the promise
  that \<^verbatim>\<open>verify\<close> returned is rejected with that TypeError: no report with status
  \<^verbatim>\<open>timeout\<close> reaches the caller.
\<close>

theorem C6_verify_timeout_before_first_check_rejects:
  "verify shortTimeoutConfig nothingResolvesRun = Inl (TypeError ''Cannot read properties of null'')
   \<and> (\<forall>j. \<not> success (overall (performComprehensiveCheck (cfg_target shortTimeoutConfig)
                (tickProbes nothingResolvesRun j))))
   \<and> \<not> success (overall (performComprehensiveCheck (cfg_target shortTimeoutConfig)
                (initialProbes nothingResolvesRun)))"
proof -
  have i: "\<not> success (overall (performComprehensiveCheck (cfg_target shortTimeoutConfig)
                (initialProbes nothingResolvesRun)))"
    by (simp add: nothingResolvesRun_def nothingResolves_fails)
  have t: "cfg_timeout shortTimeoutConfig
      \<le> int (initialDuration nothingResolvesRun) + timerDelay (cfg_checkInterval shortTimeoutConfig)"
    by (simp add: shortTimeoutConfig_def nothingResolvesRun_def timerDelay_def)
  show ?thesis
    using verify_timeout_at_first_tick [OF i t] i
    by (simp add: nothingResolvesRun_def nothingResolves_fails)
qed

subsection \<open>Status-change events of the monitor\<close>

lemma statusChanges_append: "statusChanges (xs @ ys) = statusChanges xs @ statusChanges ys"
  by (simp add: statusChanges_def)

lemma handleStatusChange_changes:
  "statusChanges (fst (handleStatusChange th st ov)) =
     (if healthy ov \<noteq> wasHealthy st then [healthy ov] else [])"
  by (auto simp: handleStatusChange_def statusChanges_def Let_def)

lemma handleStatusChange_wasHealthy:
  "wasHealthy (snd (handleStatusChange th st ov)) = healthy ov"
  by (simp add: handleStatusChange_def wasHealthy_def Let_def split: prod.splits)

lemma processChecks_changes:
  "statusChanges (processChecks th st rs) =
     flips (wasHealthy st) (map (\<lambda>r. healthy (calculateOverallHealth r)) rs)"
proof (induction rs arbitrary: st)
  case Nil
  show ?case by (simp add: statusChanges_def)
next
  case (Cons r rs)
  obtain sent st' where h: "handleStatusChange th st (calculateOverallHealth r) = (sent, st')"
    by (cases "handleStatusChange th st (calculateOverallHealth r)")
  have a: "statusChanges sent =
      (if healthy (calculateOverallHealth r) \<noteq> wasHealthy st
       then [healthy (calculateOverallHealth r)] else [])"
    using handleStatusChange_changes [of th st "calculateOverallHealth r"] h by simp
  have b: "wasHealthy st' = healthy (calculateOverallHealth r)"
    using handleStatusChange_wasHealthy [of th st "calculateOverallHealth r"] h by simp
  show ?case
    using Cons.IH [of st'] by (simp add: h statusChanges_append a b)
qed

lemma flips_alternate:
  "distinct_adj (flips prev hs) \<and> (flips prev hs = [] \<or> hd (flips prev hs) = (\<not> prev))"
proof (induction hs arbitrary: prev)
  case Nil
  show ?case by simp
next
  case (Cons h hs)
  show ?case
  proof (cases "h = prev")
    case True
    with Cons.IH [of prev] show ?thesis by simp
  next
    case False
    with Cons.IH [of h] show ?thesis
      by (cases "flips h hs") auto
  qed
qed

text \<open>
  The \<^verbatim>\<open>status_change\<close> alerts of \<^verbatim>\<open>DNSMonitor\<close> are the changes of its overall
  healthy flag from one check to the next (the first check is compared with the last
  status, unhealthy when there is none): one alert per change, none while the flag
  stays the same.
\<close>

lemma monitor_status_change_once_per_flip:
  "statusChanges (processChecks alertThreshold st rs) =
     flips (wasHealthy st) (map (\<lambda>r. healthy (calculateOverallHealth r)) rs)
   \<and> distinct_adj (statusChanges (processChecks alertThreshold st rs))"
  unfolding processChecks_changes by (simp add: flips_alternate)

subsection \<open>Health transitions of an endpoint\<close>










subsection \<open>The optimal endpoint\<close>

lemma set_insertBy: "set (insertBy cmp x xs) = insert x (set xs)"
  by (induction xs) auto

lemma set_sortBy_aux:
  "set (foldl (\<lambda>sorted x. insertBy cmp x sorted) acc xs) = set acc \<union> set xs"
  by (induction xs arbitrary: acc) (auto simp: set_insertBy)

lemma set_sortBy: "set (sortBy cmp xs) = set xs"
  by (simp add: sortBy_def set_sortBy_aux)

lemma ranksBefore_trans: "ranksBefore a b \<Longrightarrow> ranksBefore b c \<Longrightarrow> ranksBefore a c"
  by (auto simp: ranksBefore_def split: if_splits)

lemma compare_below: "compareMeasurements a b < 0 \<Longrightarrow> ranksBefore a b"
  by (auto simp: compareMeasurements_def ranksBefore_def split: if_splits)

lemma compare_not_below: "\<not> compareMeasurements a b < 0 \<Longrightarrow> ranksBefore b a"
  by (auto simp: compareMeasurements_def ranksBefore_def split: if_splits)

lemma sorted_insertBy:
  "sorted_wrt ranksBefore xs \<Longrightarrow> sorted_wrt ranksBefore (insertBy compareMeasurements x xs)"
proof (induction xs)
  case Nil
  show ?case by simp
next
  case (Cons y ys)
  show ?case
  proof (cases "compareMeasurements x y < 0")
    case True
    then have xy: "ranksBefore x y" by (rule compare_below)
    have "\<forall>z\<in>set ys. ranksBefore x z"
      using Cons.prems xy ranksBefore_trans by auto
    with True xy Cons.prems show ?thesis by simp
  next
    case False
    then have yx: "ranksBefore y x" by (rule compare_not_below)
    have "sorted_wrt ranksBefore (insertBy compareMeasurements x ys)"
      using Cons by simp
    moreover have "\<forall>z\<in>set (insertBy compareMeasurements x ys). ranksBefore y z"
      using Cons.prems yx by (auto simp: set_insertBy)
    ultimately show ?thesis using False by simp
  qed
qed

lemma sorted_sortBy_aux:
  "sorted_wrt ranksBefore acc \<Longrightarrow>
     sorted_wrt ranksBefore (foldl (\<lambda>sorted x. insertBy compareMeasurements x sorted) acc xs)"
  by (induction xs arbitrary: acc) (auto simp: sorted_insertBy)

lemma sorted_sortBy: "sorted_wrt ranksBefore (sortBy compareMeasurements xs)"
  by (simp add: sortBy_def sorted_sortBy_aux)

lemma measureEndpoint_available:
  "timesNonNegative head endpoints \<Longrightarrow> e \<in> set endpoints \<Longrightarrow>
     available (measureEndpoint head e) \<Longrightarrow> 0 \<le> responseTime (measureEndpoint head e)"
  by (auto simp: timesNonNegative_def measureEndpoint_def list_all_iff
      split: awaited.splits prod.splits)

text \<open>
  C9. When every answered request took a non-negative time: if some endpoint is available
  (answered with a status below 500), \<^verbatim>\<open>getOptimalEndpoint\<close> returns the measurement of
  one of the endpoints, that endpoint is available, and no available endpoint has a
  smaller response time; if no endpoint is available, it returns the primary URL as
  fallback and none of the measurements.
\<close>

theorem C9_optimal_endpoint_fastest_available:
  assumes "timesNonNegative head endpoints"
  shows "case getOptimalEndpoint primaryUrl head endpoints of
           Measured m \<Rightarrow>
             m \<in> set (map (measureEndpoint head) endpoints) \<and> available m
             \<and> (\<forall>m' \<in> set (map (measureEndpoint head) endpoints).
                   available m' \<longrightarrow> responseTime m \<le> responseTime m')
         | PrimaryFallback url \<Rightarrow>
             url = primaryUrl
             \<and> (\<forall>m' \<in> set (map (measureEndpoint head) endpoints). \<not> available m')"
proof -
  let ?ms = "map (measureEndpoint head) endpoints"
  let ?sorted = "measureCDNPerformance head endpoints"
  have set_sorted: "set ?sorted = set ?ms"
    by (simp add: measureCDNPerformance_def set_sortBy)
  have sorted: "sorted_wrt ranksBefore (filter available ?sorted)"
    unfolding measureCDNPerformance_def by (rule sorted_wrt_filter) (rule sorted_sortBy)
  have nonneg: "0 \<le> responseTime m" if "m \<in> set ?ms" "available m" for m
    using that assms measureEndpoint_available by auto
  show ?thesis
  proof (cases "filter available ?sorted")
    case Nil
    then have "\<forall>m' \<in> set ?sorted. \<not> available m'"
      by (simp add: filter_empty_conv)
    with Nil set_sorted show ?thesis
      by (simp add: getOptimalEndpoint_def)
  next
    case (Cons m rest)
    have m_in: "m \<in> set (filter available ?sorted)"
      using Cons by simp
    then have m: "m \<in> set ?ms" "available m"
      using set_sorted by auto
    have least: "responseTime m \<le> responseTime m'" if "m' \<in> set ?ms" "available m'" for m'
    proof (cases "m' = m")
      case True
      then show ?thesis by simp
    next
      case False
      have "m' \<in> set (filter available ?sorted)"
        using that set_sorted by simp
      with False Cons have "m' \<in> set rest" by auto
      with sorted Cons have "ranksBefore m m'" by simp
      moreover have "0 \<le> responseTime m'" using nonneg that by blast
      ultimately show ?thesis
        using m that by (auto simp: ranksBefore_def split: if_splits)
    qed
    from Cons m least show ?thesis
      by (simp add: getOptimalEndpoint_def)
  qed
qed

theorem C9_optimal_endpoint_witness:
  "timesNonNegative sampleHead cdnEndpoints
   \<and> (case getOptimalEndpoint ''https://fogg-calendar.netlify.app'' sampleHead cdnEndpoints of
         Measured m \<Rightarrow>
           m \<in> set (map (measureEndpoint sampleHead) cdnEndpoints) \<and> available m
           \<and> (\<forall>m' \<in> set (map (measureEndpoint sampleHead) cdnEndpoints).
                 available m' \<longrightarrow> responseTime m \<le> responseTime m')
       | PrimaryFallback url \<Rightarrow>
           url = ''https://fogg-calendar.netlify.app''
           \<and> (\<forall>m' \<in> set (map (measureEndpoint sampleHead) cdnEndpoints). \<not> available m'))
   \<and> (\<exists>m. getOptimalEndpoint ''https://fogg-calendar.netlify.app'' sampleHead cdnEndpoints
              = Measured m
            \<and> ep_name (m_endpoint m) = ''Direct'' \<and> responseTime m = 80)"
proof -
  have h: "timesNonNegative sampleHead cdnEndpoints"
    by (simp add: timesNonNegative_def sampleHead_def cdnEndpoints_def)
  have v: "\<exists>m. getOptimalEndpoint ''https://fogg-calendar.netlify.app'' sampleHead cdnEndpoints
              = Measured m
            \<and> ep_name (m_endpoint m) = ''Direct'' \<and> responseTime m = 80"
    by (simp add: getOptimalEndpoint_def measureCDNPerformance_def sortBy_def
        measureEndpoint_def sampleHead_def cdnEndpoints_def compareMeasurements_def)
  show ?thesis
    using h v C9_optimal_endpoint_fastest_available [OF h, of "''https://fogg-calendar.netlify.app''"]
    by blast
qed

subsection \<open>Credential loading\<close>

lemma trySources_spec:
  "trySources p sys ss = (tried, found) \<Longrightarrow>
     prefix tried ss
     \<and> (case found of
          Some c \<Rightarrow> tried \<noteq> [] \<and> loadFrom (last tried) p sys = Some c
                    \<and> list_all (\<lambda>s. loadFrom s p sys = None) (butlast tried)
        | None \<Rightarrow> tried = ss \<and> list_all (\<lambda>s. loadFrom s p sys = None) ss)"
proof (induction ss arbitrary: tried found)
  case Nil
  then show ?case by simp
next
  case (Cons s rest)
  show ?case
  proof (cases "loadFrom s p sys")
    case (Some c)
    with Cons.prems have "tried = [s]" and "found = Some c"
      by auto
    with Some show ?thesis by simp
  next
    case None
    obtain tried' found' where r: "trySources p sys rest = (tried', found')"
      by (cases "trySources p sys rest")
    from Cons.prems None r have t: "tried = s # tried'" and f: "found = found'"
      by auto
    from Cons.IH [OF r] None show ?thesis
      unfolding t f by (cases found') (auto split: if_splits)
  qed
qed

lemma loadCredentials_result:
  "snd (loadCredentials p sys) =
     (case loadFromEnvironment p sys of
        Some c \<Rightarrow> Inr c
      | None \<Rightarrow> (case loadFromFile p sys of
                   Some c \<Rightarrow> Inr c
                 | None \<Rightarrow> Inl (''No valid '' @ providerName p @ '' credentials found'')))"
  by (cases p)
    (simp_all add: loadCredentials_def sources_def loadFrom_def loadFromAWSSecrets_def Let_def
      split: option.splits prod.splits)

lemma healthCheck_without_credentials:
  "snd (loadCredentials p sys) = Inl msg \<Longrightarrow>
     healthCheck p sys net = Inr \<lparr> hc_healthy = False, hc_error = Some (unreachable p @ msg) \<rparr>"
  by (simp add: healthCheck_def healthCheckTry_def)

text \<open>
  C4 as stated fails for the Porkbun provider. On a machine with no credentials in the
  environment and a credentials file that holds only an API key, \<^verbatim>\<open>loadCredentials\<close>
  calls the secret-manager lookup before it reads the file, and it returns the
  file's object although the secret key is missing from it.
\<close>

theorem C4_porkbun_order_counterexample:
  "fst (loadCredentials Porkbun halfFileSystem) = [FromEnvironment, FromAWSSecrets, FromFile]
   \<and> snd (loadCredentials Porkbun halfFileSystem) = Inr [(''apiKey'', ''pk1_abc'')]
   \<and> \<not> complete Porkbun [(''apiKey'', ''pk1_abc'')]"
  by (simp add: loadCredentials_def sources_def loadFrom_def loadFromAWSSecrets_def
      loadFromEnvironment_def loadFromFile_def envValue_def credsPath_def halfFileSystem_def
      complete_def requiredFields_def)

subsection \<open>Health checks never throw\<close>

text \<open>
  C5. For each of the providers, every machine and every outcome of the request, nothing
  is thrown out of \<^verbatim>\<open>healthCheck\<close>: it returns an object with a boolean \<^verbatim>\<open>healthy\<close> and
  an optional error string. When the credentials cannot be loaded, and when the
  request fails (network error, timeout, error status), the object is
  \<^verbatim>\<open>healthy: false\<close> with the message of the error behind the provider's prefix. The
  two placeholder classes of dns-management-system.js return a constant object.
\<close>

theorem C5_healthCheck_total:
  "(\<exists>h. healthCheck p sys net = Inr h)
   \<and> (\<exists>h. stubHealthCheck = Inr h)
   \<and> (\<forall>msg. snd (loadCredentials p sys) = Inl msg \<longrightarrow>
         healthCheck p sys net
           = Inr \<lparr> hc_healthy = False, hc_error = Some (unreachable p @ msg) \<rparr>)
   \<and> (\<forall>c msg. snd (loadCredentials p sys) = Inr c \<longrightarrow> requestFails p net c msg \<longrightarrow>
         healthCheck p sys net
           = Inr \<lparr> hc_healthy = False, hc_error = Some (unreachable p @ msg) \<rparr>)"
proof -
  have total: "\<exists>h. healthCheck p sys net = Inr h"
    by (cases "healthCheckTry p sys net") (simp_all add: healthCheck_def)
  have stub: "\<exists>h. stubHealthCheck = Inr h"
    by (simp add: stubHealthCheck_def)
  have fails: "healthCheck p sys net
      = Inr \<lparr> hc_healthy = False, hc_error = Some (unreachable p @ msg) \<rparr>"
    if "snd (loadCredentials p sys) = Inr c" "requestFails p net c msg" for c msg
    using that
    by (cases p) (simp_all add: healthCheck_def healthCheckTry_def requestFails_def)
  show ?thesis
    using total stub fails healthCheck_without_credentials by blast
qed

theorem C5_healthCheck_witness:
  "snd (loadCredentials Porkbun bareSystem) = Inl ''No valid Porkbun credentials found''
   \<and> healthCheck Porkbun bareSystem deadNetwork
       = Inr \<lparr> hc_healthy = False,
               hc_error = Some ''API unreachable: No valid Porkbun credentials found'' \<rparr>
   \<and> snd (loadCredentials Cloudflare tokenSystem) = Inr [(''apiToken'', ''cf_token'')]
   \<and> requestFails Cloudflare deadNetwork [(''apiToken'', ''cf_token'')]
       ''timeout of 10000ms exceeded''
   \<and> healthCheck Cloudflare tokenSystem deadNetwork
       = Inr \<lparr> hc_healthy = False,
               hc_error = Some ''Cloudflare API unreachable: timeout of 10000ms exceeded'' \<rparr>"
proof -
  have a: "snd (loadCredentials Porkbun bareSystem) = Inl ''No valid Porkbun credentials found''"
    by (simp add: loadCredentials_result loadFromEnvironment_def loadFromFile_def envValue_def
        bareSystem_def providerName_def)
  have b: "snd (loadCredentials Cloudflare tokenSystem) = Inr [(''apiToken'', ''cf_token'')]"
    by (simp add: loadCredentials_result loadFromEnvironment_def envValue_def tokenSystem_def)
  have c: "requestFails Cloudflare deadNetwork [(''apiToken'', ''cf_token'')]
       ''timeout of 10000ms exceeded''"
    by (simp add: requestFails_def deadNetwork_def)
  show ?thesis
    using a b c C5_healthCheck_total [of Porkbun bareSystem deadNetwork]
      C5_healthCheck_total [of Cloudflare tokenSystem deadNetwork]
    by (simp add: unreachable_def)
qed

subsection \<open>Creating or updating a record\<close>

text \<open>
  The Cloudflare provider updates in place: when the lookup finds a CNAME record for the
  subdomain, the only writing request is a \<^verbatim>\<open>PUT\<close> on the id of that record, and the
  result carries that id; when it finds none, the only writing request is a
  \<^verbatim>\<open>POST\<close>.
\<close>

lemma cloudflare_updates_existing:
  assumes "getZoneId api st (ri_domain r) = (sent0, Inr (zone, st1))"
    and "findExistingRecord api st1 zone (ri_subdomain r) = (sent1, Inr (Some recordId))"
    and "cf_credentials st1 = Some c"
  shows "filter writes (fst (cloudflareCreateRecord api st r))
           = [CfPutRecord zone recordId (ri_target r) (ri_ttl r)]"
    and "cfPut api c zone recordId r = Fulfilled (Some reply) \<Longrightarrow>
           cr_recordId (fst (snd (cloudflareCreateRecord api st r))) = Some recordId"
proof -
  have s0: "filter writes sent0 = []"
    using assms(1)
    by (auto simp: getZoneId_def Let_def writes_def split: option.splits if_splits)
  have s1: "filter writes sent1 = []"
    using assms(2)
    by (auto simp: findExistingRecord_def writes_def split: option.splits)
  show "filter writes (fst (cloudflareCreateRecord api st r))
           = [CfPutRecord zone recordId (ri_target r) (ri_ttl r)]"
    using assms s0 s1
    by (simp add: cloudflareCreateRecord_def updateRecord_def writes_def
        split: awaited.splits option.splits)
  show "cfPut api c zone recordId r = Fulfilled (Some reply) \<Longrightarrow>
           cr_recordId (fst (snd (cloudflareCreateRecord api st r))) = Some recordId"
    using assms
    by (simp add: cloudflareCreateRecord_def updateRecord_def)
qed

lemma cloudflare_creates_missing:
  assumes "getZoneId api st (ri_domain r) = (sent0, Inr (zone, st1))"
    and "findExistingRecord api st1 zone (ri_subdomain r) = (sent1, Inr None)"
    and "cf_credentials st1 = Some c"
  shows "filter writes (fst (cloudflareCreateRecord api st r))
           = [CfPostRecord zone (ri_subdomain r) (ri_target r) (ri_ttl r)]"
proof -
  have s0: "filter writes sent0 = []"
    using assms(1)
    by (auto simp: getZoneId_def Let_def writes_def split: option.splits if_splits)
  have s1: "filter writes sent1 = []"
    using assms(2)
    by (auto simp: findExistingRecord_def writes_def split: option.splits)
  show ?thesis
    using assms s0 s1
    by (simp add: cloudflareCreateRecord_def createNewRecord_def writes_def
        split: awaited.splits option.splits)
qed

text \<open>
  After a health check that could not load credentials, \<^verbatim>\<open>this.credentials\<close> of the
  Porkbun provider is still \<^verbatim>\<open>null\<close>, and its \<^verbatim>\<open>createRecord\<close> fails without
  sending a request.
\<close>

lemma porkbun_without_credentials:
  "snd (loadCredentials Porkbun sys) = Inl msg \<Longrightarrow>
     porkbunCreateRecord post (credentialsAfter Porkbun sys None) r
       = ([], porkbunError nullData None)"
  by (simp add: credentialsAfter_def porkbunCreateRecord_def)

text \<open>
  C3. The Porkbun provider does not do this. Whatever the zone holds, its
  \<^verbatim>\<open>createRecord\<close> sends exactly one request, the create request: it never looks for a
  record of that name and never addresses a record by its id. Called for
  \<^verbatim>\<open>fogg.candlefish.ai\<close> at a registrar that accepts the request, it reports the id of
  a newly created record.
\<close>

theorem C3_porkbun_always_creates:
  "porkbunCreateRecord registrar (Some porkbunKeys) foggRecord
     = ([PorkbunCreate ''candlefish.ai'' ''fogg'' ''fogg-calendar.netlify.app'' 300],
        \<lparr> cr_success = True, cr_recordId = Some ''1002'', cr_error = None \<rparr>)
   \<and> (\<forall>post c r. fst (porkbunCreateRecord post (Some c) r)
         = [PorkbunCreate (ri_domain r) (ri_subdomain r) (ri_target r) (ri_ttl r)])"
  by (simp add: porkbunCreateRecord_def registrar_def foggRecord_def porkbunKeys_def)

subsection \<open>configureDNS when no provider is available\<close>

lemma attemptProvider_returns: "\<exists>ok. attemptProvider pr = Inr ok"
  by (cases "attemptProviderTry pr") (auto simp: attemptProvider_def)

lemma attemptProvider_unavailable: "unavailable pr \<Longrightarrow> attemptProvider pr = Inr False"
  by (auto simp: unavailable_def attemptProvider_def attemptProviderTry_def
      split: awaited.splits)

lemma configureLoop_unavailable:
  "list_all unavailable prs \<Longrightarrow> configureLoop env prs = implementBackupStrategy env"
  by (induction prs) (simp_all add: attemptProvider_unavailable)

lemma tryAlternatives_outcome:
  "out_success (tryAlternatives provider alts) \<Longrightarrow>
     out_method (tryAlternatives provider alts) = Some ''alternative_subdomain''
     \<and> out_url (tryAlternatives provider alts)
         \<in> (\<lambda>alt. Some (''https://'' @ alt @ ''.candlefish.ai'')) ` set alts"
proof (induction alts)
  case Nil
  then show ?case by (simp add: emptyOutcome_def)
next
  case (Cons alt alts)
  show ?case
  proof (cases provider)
    case None
    with Cons show ?thesis by simp
  next
    case (Some pr)
    show ?thesis
    proof (cases "pr_createRecord pr (managerConfig\<lparr> ri_subdomain := alt \<rparr>)")
      case (Rejected msg)
      with Some Cons show ?thesis by simp
    next
      case (Fulfilled res)
      show ?thesis
      proof (cases "cr_success res")
        case True
        with Some Fulfilled show ?thesis
          by (simp add: emptyOutcome_def managerConfig_def)
      next
        case False
        with Some Fulfilled Cons show ?thesis by simp
      qed
    qed
  qed
qed

text \<open>
  C2 as stated fails. With the health checks of all three providers reporting
  unavailable and a writable file system, \<^verbatim>\<open>configureDNS\<close> returns the result of the
  Netlify-redirect strategy, whose \<^verbatim>\<open>success\<close> is \<^verbatim>\<open>true\<close>.
\<close>

theorem C2_all_unavailable_counterexample:
  "list_all unavailable (providers badCredentialsRun)
   \<and> configureDNS badCredentialsRun =
       Inr \<lparr> out_success = True, out_provider = None,
             out_method = Some ''netlify_redirect'',
             out_url = Some ''https://candlefish.ai/fogg'', out_proxyTarget = None,
             out_temporaryUrl = None, out_error = None \<rparr>"
proof -
  have u: "list_all unavailable (providers badCredentialsRun)"
    by (simp add: badCredentialsRun_def unavailable_def)
  have "implementBackupStrategy badCredentialsRun =
      Inr \<lparr> out_success = True, out_provider = None,
            out_method = Some ''netlify_redirect'',
            out_url = Some ''https://candlefish.ai/fogg'', out_proxyTarget = None,
            out_temporaryUrl = None, out_error = None \<rparr>"
    by (simp add: implementBackupStrategy_def useNetlifyRedirect_def badCredentialsRun_def
        emptyOutcome_def)
  with u show ?thesis
    by (simp add: configureDNS_def configureLoop_unavailable)
qed

text \<open>
  C2, amended. If the health check of every provider reports unavailable (or throws),
  \<^verbatim>\<open>configureDNS\<close> does not throw: it returns the result of its backup strategies.
  Whenever the redirects file can be written, this is the result of the Netlify
  redirect, with \<^verbatim>\<open>success\<close> \<^verbatim>\<open>true\<close> and the address
  \<^verbatim>\<open>https://candlefish.ai/fogg\<close>.
\<close>

theorem C2_all_unavailable_redirect_result:
  assumes "list_all unavailable (providers env)"
  shows "\<exists>res. configureDNS env = Inr res
           \<and> (redirectsWritten env = Fulfilled () \<longrightarrow>
                out_success res
                \<and> out_method res = Some ''netlify_redirect''
                \<and> out_url res = Some ''https://candlefish.ai/fogg'')"
proof -
  let ?res = "firstSuccessful [useNetlifyRedirect env, createAlternativeSubdomain env,
                               setupProxyServer, notifyUserWithInstructions env]"
  have c: "configureDNS env = Inr ?res"
    using assms by (simp add: configureDNS_def configureLoop_unavailable implementBackupStrategy_def)
  have w: "redirectsWritten env = Fulfilled () \<longrightarrow>
      out_success ?res \<and> out_method ?res = Some ''netlify_redirect''
      \<and> out_url ?res = Some ''https://candlefish.ai/fogg''"
    by (simp add: useNetlifyRedirect_def emptyOutcome_def)
  show ?thesis
    using c w by blast
qed

theorem C2_all_unavailable_witness:
  "list_all unavailable (providers noCredentialsRun)
   \<and> redirectsWritten noCredentialsRun = Fulfilled ()
   \<and> (\<exists>res. configureDNS noCredentialsRun = Inr res
          \<and> out_success res
          \<and> out_method res = Some ''netlify_redirect''
          \<and> out_url res = Some ''https://candlefish.ai/fogg'')"
proof -
  have h: "healthCheck Porkbun bareSystem liveNetwork
      = Inr \<lparr> hc_healthy = False,
              hc_error = Some ''API unreachable: No valid Porkbun credentials found'' \<rparr>"
    by (simp add: healthCheck_def healthCheckTry_def loadCredentials_result
        loadFromEnvironment_def loadFromFile_def envValue_def bareSystem_def providerName_def
        unreachable_def)
  have u: "list_all unavailable (providers noCredentialsRun)"
    by (simp add: noCredentialsRun_def unavailable_def porkbunRun_def placeholderRun_def
        stubHealthCheck_def h)
  have w: "redirectsWritten noCredentialsRun = Fulfilled ()"
    by (simp add: noCredentialsRun_def)
  show ?thesis
    using u w C2_all_unavailable_redirect_result [OF u] by auto
qed

subsection \<open>A provider without credentials\<close>

lemma environment_complete: "loadFromEnvironment p sys = Some c \<Longrightarrow> complete p c"
  by (cases p)
    (auto simp: loadFromEnvironment_def envValue_def complete_def requiredFields_def
      split: option.splits if_splits)

lemma credentialsAfter_failure:
  "snd (loadCredentials p sys) = Inl msg \<Longrightarrow> credentialsAfter p sys None = None"
  by (simp add: credentialsAfter_def)

lemma cloudflare_without_credentials:
  "cloudflareCreateRecord api \<lparr> cf_credentials = None, cf_zoneId = zone \<rparr> r
     = ([], cloudflareError nullData, \<lparr> cf_credentials = None, cf_zoneId = zone \<rparr>)"
  by (cases zone)
    (simp_all add: cloudflareCreateRecord_def getZoneId_def findExistingRecord_def Let_def)

lemma netlify_without_credentials:
  "netlifyCreateRecord api \<lparr> nf_credentials = None, nf_dnsZoneId = zone \<rparr> r
     = ([], netlifyError (''Failed to create/find DNS zone: '' @ nullData),
        \<lparr> nf_credentials = None, nf_dnsZoneId = zone \<rparr>)"
  by (simp add: netlifyCreateRecord_def ensureDNSZone_def ensureDNSZoneTry_def)

lemma porkbunRun_unavailable:
  "snd (loadCredentials Porkbun sys) = Inl msg \<Longrightarrow>
     unavailable (porkbunRun sys net post propagated)"
  by (simp add: unavailable_def porkbunRun_def healthCheck_without_credentials)

lemma porkbunRun_no_alternative:
  "snd (loadCredentials Porkbun sys) = Inl msg \<Longrightarrow>
     \<not> out_success (tryAlternatives (Some (porkbunRun sys net post propagated)) alts)"
  by (induction alts)
    (simp_all add: emptyOutcome_def porkbunRun_def credentialsAfter_def porkbunCreateRecord_def
      porkbunError_def)

text \<open>
  C4, amended. Each provider calls its sources in the fixed order of its own list:
  environment, file, secret manager for Cloudflare and Netlify; environment, secret
  manager, file for Porkbun. The sources called are a prefix of that list. When the
  credentials file, if it holds an object, holds a complete credential set, the value
  returned is a complete credential set, that of the last source called, and every
  source called before it yielded nothing. If no source yields credentials, all
  sources were called and \<^verbatim>\<open>loadCredentials\<close> throws; the provider is then
  unavailable for the rest of the run: \<^verbatim>\<open>healthCheck\<close> returns \<^verbatim>\<open>healthy: false\<close>
  with the message of that error, \<^verbatim>\<open>this.credentials\<close> stays \<^verbatim>\<open>null\<close>, every later
  \<^verbatim>\<open>createRecord\<close> of the provider fails without sending a request, and the manager
  skips its Porkbun provider in \<^verbatim>\<open>attemptProvider\<close> and gets no alternative
  subdomain from it.
\<close>

theorem C4_credentials_first_complete_source:
  assumes "fileComplete p sys"
  shows "sources Porkbun = [FromEnvironment, FromAWSSecrets, FromFile]
   \<and> sources Cloudflare = [FromEnvironment, FromFile, FromAWSSecrets]
   \<and> sources Netlify = [FromEnvironment, FromFile, FromAWSSecrets]
   \<and> prefix (fst (loadCredentials p sys)) (sources p)
   \<and> (case snd (loadCredentials p sys) of
        Inr c \<Rightarrow>
          complete p c
          \<and> fst (loadCredentials p sys) \<noteq> []
          \<and> loadFrom (last (fst (loadCredentials p sys))) p sys = Some c
          \<and> list_all (\<lambda>s. loadFrom s p sys = None) (butlast (fst (loadCredentials p sys)))
      | Inl msg \<Rightarrow>
          fst (loadCredentials p sys) = sources p
          \<and> list_all (\<lambda>s. loadFrom s p sys = None) (sources p)
          \<and> msg = ''No valid '' @ providerName p @ '' credentials found''
          \<and> healthCheck p sys net
              = Inr \<lparr> hc_healthy = False, hc_error = Some (unreachable p @ msg) \<rparr>
          \<and> credentialsAfter p sys None = None
          \<and> (case p of
               Porkbun \<Rightarrow>
                 porkbunCreateRecord post (credentialsAfter p sys None) r
                   = ([], porkbunError nullData None)
                 \<and> attemptProvider (porkbunRun sys net post propagated) = Inr False
                 \<and> \<not> out_success
                      (tryAlternatives (Some (porkbunRun sys net post propagated)) alts)
             | Cloudflare \<Rightarrow>
                 cloudflareCreateRecord cfApi
                     \<lparr> cf_credentials = credentialsAfter p sys None, cf_zoneId = zone \<rparr> r
                   = ([], cloudflareError nullData,
                      \<lparr> cf_credentials = None, cf_zoneId = zone \<rparr>)
             | Netlify \<Rightarrow>
                 netlifyCreateRecord nfApi
                     \<lparr> nf_credentials = credentialsAfter p sys None, nf_dnsZoneId = zone \<rparr> r
                   = ([], netlifyError (''Failed to create/find DNS zone: '' @ nullData),
                      \<lparr> nf_credentials = None, nf_dnsZoneId = zone \<rparr>)))
   \<and> snd (loadCredentials p sys) =
       (case loadFromEnvironment p sys of
          Some c \<Rightarrow> Inr c
        | None \<Rightarrow> (case loadFromFile p sys of
                     Some c \<Rightarrow> Inr c
                   | None \<Rightarrow> Inl (''No valid '' @ providerName p @ '' credentials found'')))"
proof -
  obtain tried found where t: "trySources p sys (sources p) = (tried, found)"
    by (cases "trySources p sys (sources p)")
  have l: "loadCredentials p sys =
      (tried, case found of Some c \<Rightarrow> Inr c
                | None \<Rightarrow> Inl (''No valid '' @ providerName p @ '' credentials found''))"
    by (simp add: loadCredentials_def t)
  have order: "sources Porkbun = [FromEnvironment, FromAWSSecrets, FromFile]
      \<and> sources Cloudflare = [FromEnvironment, FromFile, FromAWSSecrets]
      \<and> sources Netlify = [FromEnvironment, FromFile, FromAWSSecrets]"
    by (simp add: sources_def)
  have res: "snd (loadCredentials p sys) =
       (case loadFromEnvironment p sys of
          Some c \<Rightarrow> Inr c
        | None \<Rightarrow> (case loadFromFile p sys of
                     Some c \<Rightarrow> Inr c
                   | None \<Rightarrow> Inl (''No valid '' @ providerName p @ '' credentials found'')))"
    by (rule loadCredentials_result)
  have pre: "prefix (fst (loadCredentials p sys)) (sources p)"
    using trySources_spec [OF t] l by simp
  have main: "case snd (loadCredentials p sys) of
        Inr c \<Rightarrow>
          complete p c
          \<and> fst (loadCredentials p sys) \<noteq> []
          \<and> loadFrom (last (fst (loadCredentials p sys))) p sys = Some c
          \<and> list_all (\<lambda>s. loadFrom s p sys = None) (butlast (fst (loadCredentials p sys)))
      | Inl msg \<Rightarrow>
          fst (loadCredentials p sys) = sources p
          \<and> list_all (\<lambda>s. loadFrom s p sys = None) (sources p)
          \<and> msg = ''No valid '' @ providerName p @ '' credentials found''
          \<and> healthCheck p sys net
              = Inr \<lparr> hc_healthy = False, hc_error = Some (unreachable p @ msg) \<rparr>
          \<and> credentialsAfter p sys None = None
          \<and> (case p of
               Porkbun \<Rightarrow>
                 porkbunCreateRecord post (credentialsAfter p sys None) r
                   = ([], porkbunError nullData None)
                 \<and> attemptProvider (porkbunRun sys net post propagated) = Inr False
                 \<and> \<not> out_success
                      (tryAlternatives (Some (porkbunRun sys net post propagated)) alts)
             | Cloudflare \<Rightarrow>
                 cloudflareCreateRecord cfApi
                     \<lparr> cf_credentials = credentialsAfter p sys None, cf_zoneId = zone \<rparr> r
                   = ([], cloudflareError nullData,
                      \<lparr> cf_credentials = None, cf_zoneId = zone \<rparr>)
             | Netlify \<Rightarrow>
                 netlifyCreateRecord nfApi
                     \<lparr> nf_credentials = credentialsAfter p sys None, nf_dnsZoneId = zone \<rparr> r
                   = ([], netlifyError (''Failed to create/find DNS zone: '' @ nullData),
                      \<lparr> nf_credentials = None, nf_dnsZoneId = zone \<rparr>))"
  proof (cases found)
    case None
    let ?msg = "''No valid '' @ providerName p @ '' credentials found''"
    have f: "snd (loadCredentials p sys) = Inl ?msg"
      using l None by simp
    have a: "credentialsAfter p sys None = None"
      using f by (rule credentialsAfter_failure)
    have per: "case p of
               Porkbun \<Rightarrow>
                 porkbunCreateRecord post (credentialsAfter p sys None) r
                   = ([], porkbunError nullData None)
                 \<and> attemptProvider (porkbunRun sys net post propagated) = Inr False
                 \<and> \<not> out_success
                      (tryAlternatives (Some (porkbunRun sys net post propagated)) alts)
             | Cloudflare \<Rightarrow>
                 cloudflareCreateRecord cfApi
                     \<lparr> cf_credentials = credentialsAfter p sys None, cf_zoneId = zone \<rparr> r
                   = ([], cloudflareError nullData,
                      \<lparr> cf_credentials = None, cf_zoneId = zone \<rparr>)
             | Netlify \<Rightarrow>
                 netlifyCreateRecord nfApi
                     \<lparr> nf_credentials = credentialsAfter p sys None, nf_dnsZoneId = zone \<rparr> r
                   = ([], netlifyError (''Failed to create/find DNS zone: '' @ nullData),
                      \<lparr> nf_credentials = None, nf_dnsZoneId = zone \<rparr>)"
    proof (cases p)
      case Porkbun
      have fp: "snd (loadCredentials Porkbun sys) = Inl ?msg"
        using f Porkbun by simp
      show ?thesis
        using Porkbun a porkbunRun_unavailable [OF fp, of net post propagated]
          porkbunRun_no_alternative [OF fp, of net post propagated alts]
        by (simp add: porkbunCreateRecord_def attemptProvider_unavailable)
    next
      case Cloudflare
      then show ?thesis
        using a by (simp add: cloudflare_without_credentials)
    next
      case Netlify
      then show ?thesis
        using a by (simp add: netlify_without_credentials)
    qed
    show ?thesis
      using trySources_spec [OF t] l None a per
        healthCheck_without_credentials [OF f, of net]
      by simp
  next
    case (Some c)
    have r: "snd (loadCredentials p sys) = Inr c"
      using l Some by simp
    have "complete p c"
    proof (cases "loadFromEnvironment p sys")
      case None
      with r res assms show ?thesis
        by (auto simp: fileComplete_def split: option.splits)
    next
      case (Some c')
      with r res have "c' = c" by simp
      with Some show ?thesis
        using environment_complete by blast
    qed
    with trySources_spec [OF t] l Some show ?thesis by simp
  qed
  show ?thesis
    using order pre main res by blast
qed

theorem C4_credentials_witness:
  "fileComplete Porkbun bareSystem
   \<and> snd (loadCredentials Porkbun bareSystem) = Inl ''No valid Porkbun credentials found''
   \<and> fst (loadCredentials Porkbun bareSystem) = [FromEnvironment, FromAWSSecrets, FromFile]
   \<and> healthCheck Porkbun bareSystem liveNetwork
       = Inr \<lparr> hc_healthy = False,
               hc_error = Some ''API unreachable: No valid Porkbun credentials found'' \<rparr>
   \<and> porkbunCreateRecord registrar (credentialsAfter Porkbun bareSystem None) foggRecord
       = ([], porkbunError nullData None)
   \<and> attemptProvider (porkbunRun bareSystem liveNetwork registrar True) = Inr False
   \<and> fileComplete Cloudflare tokenSystem
   \<and> snd (loadCredentials Cloudflare tokenSystem) = Inr [(''apiToken'', ''cf_token'')]
   \<and> complete Cloudflare [(''apiToken'', ''cf_token'')]"
proof -
  have fa: "fileComplete Porkbun bareSystem"
    by (simp add: fileComplete_def loadFromFile_def bareSystem_def)
  have fb: "fileComplete Cloudflare tokenSystem"
    by (simp add: fileComplete_def loadFromFile_def tokenSystem_def)
  have a: "snd (loadCredentials Porkbun bareSystem) = Inl ''No valid Porkbun credentials found''"
    by (simp add: loadCredentials_result loadFromEnvironment_def loadFromFile_def envValue_def
        bareSystem_def providerName_def)
  have b: "snd (loadCredentials Cloudflare tokenSystem) = Inr [(''apiToken'', ''cf_token'')]"
    by (simp add: loadCredentials_result loadFromEnvironment_def envValue_def tokenSystem_def)
  from C4_credentials_first_complete_source
      [OF fa, of liveNetwork registrar foggRecord True "[]"] a
  have p1: "fst (loadCredentials Porkbun bareSystem) = [FromEnvironment, FromAWSSecrets, FromFile]"
    and p2: "healthCheck Porkbun bareSystem liveNetwork
       = Inr \<lparr> hc_healthy = False,
               hc_error = Some ''API unreachable: No valid Porkbun credentials found'' \<rparr>"
    and p3: "porkbunCreateRecord registrar (credentialsAfter Porkbun bareSystem None) foggRecord
       = ([], porkbunError nullData None)"
    and p4: "attemptProvider (porkbunRun bareSystem liveNetwork registrar True) = Inr False"
    by (auto simp: unreachable_def)
  from C4_credentials_first_complete_source [OF fb] b
  have p5: "complete Cloudflare [(''apiToken'', ''cf_token'')]"
    by simp
  show ?thesis
    using fa fb a b p1 p2 p3 p4 p5 by simp
qed

end
